theory Spec2Isabelle
  imports Complex_Main
begin

section \<open>Numbers of the audio compositor\<close>

text \<open>
  The compositor computes with JavaScript numbers. A finite number is modelled by a real
  (no rounding, no overflow, one unsigned zero); the three special values a division or
  the literal \<open>Infinity\<close> can produce are kept apart, with the IEEE rules for them.
\<close>

datatype jsnum = Num real | PInf | NInf | NaN

fun js_neg :: "jsnum \<Rightarrow> jsnum" where
  "js_neg (Num a) = Num (- a)"
| "js_neg PInf = NInf"
| "js_neg NInf = PInf"
| "js_neg NaN = NaN"

fun js_add :: "jsnum \<Rightarrow> jsnum \<Rightarrow> jsnum" where
  "js_add NaN _ = NaN"
| "js_add _ NaN = NaN"
| "js_add (Num a) (Num b) = Num (a + b)"
| "js_add PInf NInf = NaN"
| "js_add NInf PInf = NaN"
| "js_add PInf _ = PInf"
| "js_add _ PInf = PInf"
| "js_add NInf _ = NInf"
| "js_add _ NInf = NInf"

definition js_sub :: "jsnum \<Rightarrow> jsnum \<Rightarrow> jsnum" where
  "js_sub a b = js_add a (js_neg b)"

text \<open>The sign of a finite number decides the sign of a product or quotient with an infinity.\<close>

definition inf_of_sign :: "real \<Rightarrow> jsnum" where
  "inf_of_sign s = (if s = 0 then NaN else if 0 < s then PInf else NInf)"

fun js_mul :: "jsnum \<Rightarrow> jsnum \<Rightarrow> jsnum" where
  "js_mul NaN _ = NaN"
| "js_mul _ NaN = NaN"
| "js_mul (Num a) (Num b) = Num (a * b)"
| "js_mul (Num a) PInf = inf_of_sign a"
| "js_mul (Num a) NInf = inf_of_sign (- a)"
| "js_mul PInf (Num b) = inf_of_sign b"
| "js_mul NInf (Num b) = inf_of_sign (- b)"
| "js_mul PInf PInf = PInf"
| "js_mul NInf NInf = PInf"
| "js_mul PInf NInf = NInf"
| "js_mul NInf PInf = NInf"

fun js_div :: "jsnum \<Rightarrow> jsnum \<Rightarrow> jsnum" where
  "js_div NaN _ = NaN"
| "js_div _ NaN = NaN"
| "js_div (Num a) (Num b) = (if b = 0 then inf_of_sign a else Num (a / b))"
| "js_div (Num a) _ = Num 0"
| "js_div PInf (Num b) = (if 0 \<le> b then PInf else NInf)"
| "js_div NInf (Num b) = (if 0 \<le> b then NInf else PInf)"
| "js_div _ _ = NaN"

fun js_lt :: "jsnum \<Rightarrow> jsnum \<Rightarrow> bool" where
  "js_lt NaN _ = False"
| "js_lt _ NaN = False"
| "js_lt (Num a) (Num b) = (a < b)"
| "js_lt _ NInf = False"
| "js_lt PInf _ = False"
| "js_lt NInf _ = True"
| "js_lt _ PInf = True"

definition js_gt :: "jsnum \<Rightarrow> jsnum \<Rightarrow> bool" where
  "js_gt a b = js_lt b a"

text \<open>Strict equality \<open>===\<close> on numbers: \<open>NaN\<close> equals nothing, itself included.\<close>

definition js_eq :: "jsnum \<Rightarrow> jsnum \<Rightarrow> bool" where
  "js_eq a b = (a \<noteq> NaN \<and> b \<noteq> NaN \<and> a = b)"

definition js_ge :: "jsnum \<Rightarrow> jsnum \<Rightarrow> bool" where
  "js_ge a b = (js_gt a b \<or> js_eq a b)"

text \<open>\<open>Math.min\<close> and \<open>Math.max\<close> of two arguments: \<open>NaN\<close> if either is.\<close>

definition js_min :: "jsnum \<Rightarrow> jsnum \<Rightarrow> jsnum" where
  "js_min a b = (if a = NaN \<or> b = NaN then NaN else if js_lt b a then b else a)"

definition js_max :: "jsnum \<Rightarrow> jsnum \<Rightarrow> jsnum" where
  "js_max a b = (if a = NaN \<or> b = NaN then NaN else if js_lt a b then b else a)"

fun js_ceil :: "jsnum \<Rightarrow> jsnum" where
  "js_ceil (Num a) = Num (of_int \<lceil>a\<rceil>)"
| "js_ceil x = x"

section \<open>Tempo chain: \<open>calculateAtempoFilters\<close>\<close>

text \<open>
  The function returns the strings \<open>atempo=<factor>\<close>; the model keeps the factor of each
  stage, in the order pushed. The first loop divides by 100 while the rate exceeds 100.
\<close>

function speedUpLoop :: "real \<Rightarrow> real list \<Rightarrow> real \<times> real list" where
  "speedUpLoop rate atempoFilters =
     (if rate > 100 then speedUpLoop (rate / 100) (atempoFilters @ [100])
      else (rate, atempoFilters))"
  by pat_completeness auto
termination
proof (relation "measure (\<lambda>(rate, atempoFilters). nat \<lceil>rate\<rceil>)")
  show "wf (measure (\<lambda>(rate, atempoFilters). nat \<lceil>rate\<rceil>))" by simp
next
  fix rate :: real and atempoFilters :: "real list"
  assume big: "100 < rate"
  have "rate / 100 \<le> rate - 99" using big by simp
  then have "\<lceil>rate / 100\<rceil> \<le> \<lceil>rate - 99\<rceil>" by (rule ceiling_mono)
  also have "\<dots> = \<lceil>rate\<rceil> - 99" by linarith
  finally have "\<lceil>rate / 100\<rceil> < \<lceil>rate\<rceil>" by simp
  moreover have "0 < \<lceil>rate\<rceil>" using big by linarith
  ultimately show "((rate / 100, atempoFilters @ [100]), (rate, atempoFilters))
      \<in> measure (\<lambda>(rate, atempoFilters). nat \<lceil>rate\<rceil>)"
    by simp
qed

text \<open>
  The second loop doubles the rate while it is below 0.5. For a rate of zero or less the
  source never leaves this loop, so the model returns \<open>None\<close> there.
\<close>

partial_function (option) slowDownLoop :: "real \<Rightarrow> real list \<Rightarrow> (real \<times> real list) option" where
  "slowDownLoop rate atempoFilters =
     (if rate < 0.5 then slowDownLoop (rate * 2) (atempoFilters @ [0.5])
      else Some (rate, atempoFilters))"

declare slowDownLoop.simps [code]

definition calculateAtempoFilters :: "real \<Rightarrow> real list option" where
  "calculateAtempoFilters playbackRate =
     (case speedUpLoop playbackRate [] of (rate1, fs1) \<Rightarrow>
        let fs2 = (if rate1 > 1 then fs1 @ [rate1] else fs1) in
        (case slowDownLoop playbackRate fs2 of
           None \<Rightarrow> None
         | Some (rate2, fs3) \<Rightarrow> Some (if rate2 < 1 then fs3 @ [rate2] else fs3)))"

section \<open>Data model\<close>

datatype asset_type = Video | Audio

datatype error =
    TypeError
  | ProbeFailed string
  | EngineError string
  | NoSuchFile string
  | RemoveFailed string

text \<open>
  \<open>AssetInfo\<close> is one sample of one active asset in one frame, as the renderer hands it
  over; its numbers are taken to be finite. \<open>loop\<close> is optional (videos carry none).
  Its fields carry the prefix \<open>ai_\<close>, which keeps them apart from the fields of the same
  name in \<open>MediaAsset\<close>.
\<close>

record AssetInfo =
  ai_key :: string
  ai_type :: asset_type
  ai_src :: string
  ai_playbackRate :: real
  ai_volume :: real
  ai_currentTime :: real
  ai_loop :: "bool option"

record MediaAsset =
  key :: string
  src :: string
  type :: asset_type
  startInVideo :: int
  endInVideo :: int
  duration :: int
  playbackRate :: real
  volume :: real
  trimLeftInSeconds :: real
  durationInSeconds :: jsnum
  loop :: "bool option"
  volumeChanges :: "(int \<times> real) list option"

section \<open>Timeline reconstruction: \<open>getAssetPlacement\<close>\<close>

text \<open>The local variables of the function: the result array and its three maps.\<close>

record placement =
  assets :: "MediaAsset list"
  assetTimeMap :: "string \<rightharpoonup> real \<times> real"
  assetLoopMap :: "string \<rightharpoonup> bool"
  assetVolumeMap :: "string \<rightharpoonup> (int \<times> real) list"

definition emptyPlacement :: placement where
  "emptyPlacement =
     \<lparr>assets = [], assetTimeMap = Map.empty, assetLoopMap = Map.empty,
      assetVolumeMap = Map.empty\<rparr>"

text \<open>\<open>existingAsset.endInVideo = frame\<close> writes to the object \<open>find\<close> returned: the first match.\<close>

fun update_first :: "('a \<Rightarrow> bool) \<Rightarrow> ('a \<Rightarrow> 'a) \<Rightarrow> 'a list \<Rightarrow> 'a list" where
  "update_first P f [] = []"
| "update_first P f (x # xs) = (if P x then f x # xs else x # update_first P f xs)"

text \<open>\<open>asset.loop ?? false\<close>\<close>

definition orFalse :: "bool option \<Rightarrow> bool" where
  "orFalse b = (case b of None \<Rightarrow> False | Some v \<Rightarrow> v)"

text \<open>
  The body of the inner loop, for one sample at index \<open>frame\<close>. Reading the last breakpoint
  of an empty list would throw (\<open>undefined[1]\<close>); that branch is the \<open>TypeError\<close>.
\<close>

definition recordSample :: "int \<Rightarrow> placement \<Rightarrow> AssetInfo \<Rightarrow> error + placement" where
  "recordSample frame st asset =
     (case assetTimeMap st (ai_key asset) of
        None \<Rightarrow>
          Inr (st\<lparr>assetTimeMap := (assetTimeMap st)(ai_key asset \<mapsto>
                       (ai_currentTime asset, ai_currentTime asset)),
                   assetLoopMap := (assetLoopMap st)(ai_key asset \<mapsto> orFalse (ai_loop asset)),
                   assetVolumeMap := (assetVolumeMap st)(ai_key asset \<mapsto> [(0, ai_volume asset)]),
                   assets := assets st @
                     [\<lparr>key = ai_key asset, src = ai_src asset, type = ai_type asset,
                       startInVideo = frame, endInVideo = frame, duration = 0,
                       playbackRate = ai_playbackRate asset, volume = ai_volume asset,
                       trimLeftInSeconds = ai_currentTime asset, durationInSeconds = Num 0,
                       loop = ai_loop asset, volumeChanges = None\<rparr>]\<rparr>)
      | Some timeInfo \<Rightarrow>
          (let st1 = st\<lparr>assetTimeMap := (assetTimeMap st)(ai_key asset \<mapsto>
                           (fst timeInfo, ai_currentTime asset))\<rparr>
           in case find (\<lambda>a. key a = ai_key asset) (assets st1) of
                None \<Rightarrow> Inr st1
              | Some existingAsset \<Rightarrow>
                  (let st2 = st1\<lparr>assets := update_first (\<lambda>a. key a = ai_key asset)
                                   (\<lambda>a. a\<lparr>endInVideo := frame\<rparr>) (assets st1)\<rparr>
                   in case assetVolumeMap st2 (ai_key asset) of
                        None \<Rightarrow> Inr st2
                      | Some changes \<Rightarrow>
                          if changes = [] then Inl TypeError
                          else
                            (let frameOffset = frame - startInVideo existingAsset;
                                 lastVolume = snd (last changes)
                             in if \<bar>ai_volume asset - lastVolume\<bar> > 0.001
                                then Inr (st2\<lparr>assetVolumeMap := (assetVolumeMap st2)(ai_key asset \<mapsto>
                                            changes @ [(frameOffset, ai_volume asset)])\<rparr>)
                                else Inr st2))))"

fun forSamples :: "int \<Rightarrow> AssetInfo list \<Rightarrow> placement \<Rightarrow> error + placement" where
  "forSamples frame [] st = Inr st"
| "forSamples frame (asset # rest) st =
     (case recordSample frame st asset of
        Inl e \<Rightarrow> Inl e
      | Inr st' \<Rightarrow> forSamples frame rest st')"

fun forFrames :: "int \<Rightarrow> AssetInfo list list \<Rightarrow> placement \<Rightarrow> error + placement" where
  "forFrames frame [] st = Inr st"
| "forFrames frame (samples # rest) st =
     (case forSamples frame samples st of
        Inl e \<Rightarrow> Inl e
      | Inr st' \<Rightarrow> forFrames (frame + 1) rest st')"

text \<open>First \<open>forEach\<close>: the envelope is attached only if it has more than one breakpoint.\<close>

definition attachVolumeChanges :: "placement \<Rightarrow> MediaAsset \<Rightarrow> MediaAsset" where
  "attachVolumeChanges st asset =
     (case assetVolumeMap st (key asset) of
        None \<Rightarrow> asset
      | Some changes \<Rightarrow>
          if length changes > 1 then asset\<lparr>volumeChanges := Some changes\<rparr> else asset)"

text \<open>Second \<open>forEach\<close>: frame duration, duration in seconds, and the stuck-time workaround.\<close>

definition computeDuration :: "placement \<Rightarrow> MediaAsset \<Rightarrow> MediaAsset" where
  "computeDuration st asset =
     (let isLooping = (case assetLoopMap st (key asset) of None \<Rightarrow> False | Some b \<Rightarrow> b);
          a1 = asset\<lparr>duration := endInVideo asset - startInVideo asset + 1\<rparr>;
          a2 = (case assetTimeMap st (key asset) of
                  None \<Rightarrow> a1
                | Some timeInfo \<Rightarrow>
                    if isLooping then a1\<lparr>durationInSeconds := PInf\<rparr>
                    else a1\<lparr>durationInSeconds :=
                           js_div (Num (snd timeInfo - fst timeInfo)) (Num (playbackRate a1))\<rparr>)
      in if js_eq (durationInSeconds a2) (Num 0) \<and> duration a2 > 1
         then a2\<lparr>durationInSeconds := PInf\<rparr> else a2)"

definition getAssetPlacement :: "AssetInfo list list \<Rightarrow> error + MediaAsset list" where
  "getAssetPlacement frames =
     (case forFrames 0 frames emptyPlacement of
        Inl e \<Rightarrow> Inl e
      | Inr st \<Rightarrow>
          Inr (map (computeDuration st) (map (attachVolumeChanges st) (assets st))))"

section \<open>Segment synthesis: the filter chain of \<open>prepareAudio\<close>\<close>

text \<open>
  The source builds each filter as a string and joins the strings with commas. The model
  keeps one constructor per filter with the numbers the string is formatted from, in the
  order of the pushes; number formatting is left out.
  \<^item> \<open>Aloop n\<close> is \<open>aloop=loop=n:size=2e+09\<close>, \<open>Atempo f\<close> is \<open>atempo=f\<close>;
  \<^item> \<open>Atrim s e\<close> is \<open>atrim=start=s:end=e\<close>;
  \<^item> \<open>Apad n\<close> is \<open>apad=pad_len=n\<close>, the padding at the end;
  \<^item> \<open>Adelay ms\<close> is \<open>adelay=ms|ms|ms\<close>, the padding at the start;
  \<^item> \<open>Volume v\<close> is \<open>volume=v\<close>;
  \<^item> \<open>AfadeOut st d\<close> is \<open>afade=t=out:st=st:d=d:curve=qsin\<close>,
    \<open>AfadeIn st d\<close> is \<open>afade=t=in:st=st:d=d:curve=tri\<close>;
  \<^item> \<open>VolumeRamp st en v2 d\<close> is the piecewise-linear \<open>volume='if(lt(t,st),1,if(gt(t,en),v2,
    1+(v2-1)*(t-st)/d))':eval=frame\<close>.
\<close>

datatype audio_filter =
    Aloop jsnum
  | Atempo real
  | Atrim jsnum jsnum
  | Apad jsnum
  | Adelay jsnum
  | Volume real
  | AfadeOut jsnum jsnum
  | AfadeIn jsnum jsnum
  | VolumeRamp jsnum jsnum jsnum jsnum

definition needsLooping :: "MediaAsset \<Rightarrow> bool" where
  "needsLooping asset = (loop asset = Some True \<and> js_eq (durationInSeconds asset) PInf)"

definition trimLeft :: "MediaAsset \<Rightarrow> jsnum" where
  "trimLeft asset = js_div (Num (trimLeftInSeconds asset)) (Num (playbackRate asset))"

definition requiredDurationInSeconds :: "int \<Rightarrow> int \<Rightarrow> real \<Rightarrow> jsnum" where
  "requiredDurationInSeconds startFrame endFrame fps =
     js_div (Num (of_int (endFrame - startFrame))) (Num fps)"

definition trimRight :: "MediaAsset \<Rightarrow> int \<Rightarrow> int \<Rightarrow> real \<Rightarrow> jsnum" where
  "trimRight asset startFrame endFrame fps =
     js_add (js_div (Num 1) (Num fps))
       (js_min (js_add (trimLeft asset) (durationInSeconds asset))
               (js_add (trimLeft asset) (requiredDurationInSeconds startFrame endFrame fps)))"

definition padStart :: "MediaAsset \<Rightarrow> real \<Rightarrow> jsnum" where
  "padStart asset fps = js_mul (js_div (Num (of_int (startInVideo asset))) (Num fps)) (Num 1000)"

definition padEnd :: "MediaAsset \<Rightarrow> int \<Rightarrow> int \<Rightarrow> real \<Rightarrow> real \<Rightarrow> jsnum" where
  "padEnd asset startFrame endFrame fps assetSampleRate =
     js_max (Num 0)
       (js_sub
          (js_sub
             (js_div (js_mul (Num assetSampleRate) (Num (of_int (endFrame - startFrame + 1))))
                     (Num fps))
             (js_div (js_mul (Num assetSampleRate) (Num (of_int (duration asset)))) (Num fps)))
          (js_div (js_mul (Num assetSampleRate) (padStart asset fps)) (Num 1000)))"

definition loopCount :: "MediaAsset \<Rightarrow> int \<Rightarrow> int \<Rightarrow> real \<Rightarrow> jsnum" where
  "loopCount asset startFrame endFrame fps =
     (let totalDurationNeeded =
            js_add (js_add (trimLeft asset) (requiredDurationInSeconds startFrame endFrame fps))
                   (Num 5);
          estimatedAudioLength = Num 10
      in js_add (js_ceil (js_div totalDurationNeeded estimatedAudioLength)) (Num 2))"

text \<open>
  The volume part of the chain. Inside the first branch the envelope has at least two
  breakpoints, so the reads at index 0 and 1 and of the last element are in range.
\<close>

definition volumeFilters :: "MediaAsset \<Rightarrow> real \<Rightarrow> audio_filter list" where
  "volumeFilters asset fps =
     (case volumeChanges asset of
        None \<Rightarrow> [Volume (volume asset)]
      | Some changes \<Rightarrow>
          if length changes > 1 then
            (let firstVolume = snd (changes ! 0);
                 lastChange = last changes;
                 lastVolume = snd lastChange;
                 fadeStartFrame = fst (changes ! 1);
                 fadeStartTimeInVideo = js_div (Num (of_int fadeStartFrame)) (Num fps);
                 fadeDuration = js_div (Num (of_int (fst lastChange - fadeStartFrame))) (Num fps);
                 fadeStartInStream =
                   js_add (js_div (padStart asset fps) (Num 1000)) fadeStartTimeInVideo
             in [Volume firstVolume] @
                (if lastVolume < firstVolume \<and> js_gt fadeDuration (Num 0) then
                   (if lastVolume < 0.05 then [AfadeOut fadeStartInStream fadeDuration]
                    else
                      (let v2 = js_div (Num lastVolume) (Num firstVolume)
                       in [VolumeRamp fadeStartInStream (js_add fadeStartInStream fadeDuration)
                             v2 fadeDuration]))
                 else if lastVolume > firstVolume \<and> js_gt fadeDuration (Num 0) then
                   [AfadeIn fadeStartInStream fadeDuration]
                 else []))
          else [Volume (volume asset)])"

text \<open>The pushes onto \<open>audioFilters\<close>, in the order of the source.\<close>

definition audioFilters ::
  "MediaAsset \<Rightarrow> int \<Rightarrow> int \<Rightarrow> real \<Rightarrow> real \<Rightarrow> real list \<Rightarrow> audio_filter list" where
  "audioFilters asset startFrame endFrame fps assetSampleRate atempoFilters =
     (let fs0 = [];
          fs1 = (if needsLooping asset then fs0 @ [Aloop (loopCount asset startFrame endFrame fps)]
                 else fs0);
          fs2 = fs1 @ map Atempo atempoFilters;
          fs3 = fs2 @ [Atrim (trimLeft asset) (trimRight asset startFrame endFrame fps)];
          fs4 = fs3 @ [Apad (padEnd asset startFrame endFrame fps assetSampleRate)];
          fs5 = fs4 @ [Adelay (padStart asset fps)]
      in fs5 @ volumeFilters asset fps)"

text \<open>
  The stage a filter belongs to, numbered in the order the source pushes the stages:
  looping, tempo, trim, end pad, start pad, volume shaping.
\<close>

fun stage :: "audio_filter \<Rightarrow> nat" where
  "stage (Aloop _) = 0"
| "stage (Atempo _) = 1"
| "stage (Atrim _ _) = 2"
| "stage (Apad _) = 3"
| "stage (Adelay _) = 4"
| "stage (Volume _) = 5"
| "stage (AfadeOut _ _) = 5"
| "stage (AfadeIn _ _) = 5"
| "stage (VolumeRamp _ _ _ _) = 5"

section \<open>The file system, the external engine and promises\<close>

text \<open>
  An \<open>async\<close> function resolves with a value, rejects with an error, or never settles
  (when \<open>calculateAtempoFilters\<close> does not return).
\<close>

datatype 'a promise = Resolved 'a | Rejected error | Pending

fun resolved :: "'a promise \<Rightarrow> 'a option" where
  "resolved (Resolved x) = Some x"
| "resolved _ = None"

text \<open>
  The two ways the source runs the engine: \<open>Synthesize input filters output\<close> is the command
  of \<open>prepareAudio\<close> (two channels, \<open>pcm_s16le\<close>, 48000 Hz, \<open>-af\<close> with the joined
  filters, saved to \<open>output\<close>); \<open>Mix inputs output\<close> is the command of \<open>mergeAudioTracks\<close>
  (\<open>amix=inputs=n:duration=longest:normalize=0\<close> with \<open>n\<close> the number of inputs).
  The engine answers with one of the two events the source listens to: \<open>end\<close>, having
  written the output file (its bytes, possibly none), or \<open>error\<close> with a message, having
  written the file or not.
\<close>

datatype ff_job = Synthesize string "audio_filter list" string | Mix "string list" string

datatype ff_result = End "nat list" | Error string "nat list option"

record world =
  files :: "string \<rightharpoonup> nat list"
  dirs :: "string set"
  runs :: "ff_job list"

datatype format = mp4 | webm | proRes

datatype AudioCodec = aac | libopus

fun audioCodecs :: "format \<Rightarrow> AudioCodec" where
  "audioCodecs mp4 = aac"
| "audioCodecs webm = libopus"
| "audioCodecs proRes = aac"

text \<open>
  What the functions import from outside the module and from the platform is a parameter:
  \<open>os.tmpdir()\<close>, \<open>resolvePath\<close>, the \<open>extensions\<close> table, the two probes, the engine,
  \<open>mergeAudioWithVideo\<close>, and whether removing a directory fails.
\<close>

record env =
  tmpdir :: string
  resolvePath :: "string \<Rightarrow> string \<Rightarrow> string"
  extensions :: "format \<Rightarrow> string"
  checkForAudioStream :: "string \<Rightarrow> error + bool"
  getSampleRate :: "string \<Rightarrow> error + real"
  ffmpeg :: "(string \<rightharpoonup> nat list) \<Rightarrow> ff_job \<Rightarrow> ff_result"
  mergeAudioWithVideo ::
    "string \<Rightarrow> string \<Rightarrow> string \<Rightarrow> AudioCodec \<Rightarrow> world \<Rightarrow> world promise"
  rmFails :: "string \<Rightarrow> bool"

text \<open>\<open>path.join\<close> on two segments, POSIX separator, without normalisation.\<close>

definition path_join :: "string \<Rightarrow> string \<Rightarrow> string" where
  "path_join a b = a @ ''/'' @ b"

definition endsWith :: "string \<Rightarrow> string \<Rightarrow> bool" where
  "endsWith s suffix =
     (length suffix \<le> length s \<and> drop (length s - length suffix) s = suffix)"

definition pathExists :: "world \<Rightarrow> string \<Rightarrow> bool" where
  "pathExists w p = (files w p \<noteq> None \<or> p \<in> dirs w)"

text \<open>
  Modelled from the spec: \<open>makeSureFolderExists\<close> lives in the utilities module, which is
  not among the sources; the temp directory of a shard is created if missing, files are
  left alone.
\<close>

definition makeSureFolderExists :: "string \<Rightarrow> world \<Rightarrow> world" where
  "makeSureFolderExists dir w = w\<lparr>dirs := insert dir (dirs w)\<rparr>"

text \<open>\<open>fs.promises.copyFile\<close>: rejects when the source is missing, else writes the copy.\<close>

definition copyFile :: "string \<Rightarrow> string \<Rightarrow> world \<Rightarrow> world promise" where
  "copyFile source destination w =
     (case files w source of
        None \<Rightarrow> Rejected (NoSuchFile source)
      | Some content \<Rightarrow> Resolved (w\<lparr>files := (files w)(destination \<mapsto> content)\<rparr>))"

text \<open>
  \<open>fs.promises.rm(dir, {recursive: true, force: true})\<close>: the directory and everything
  below it goes; a removal that fails rejects and leaves the tree as it was.
\<close>

definition insideDir :: "string \<Rightarrow> string \<Rightarrow> bool" where
  "insideDir dir p = (p = dir \<or> take (length dir + 1) p = dir @ ''/'')"

definition rm :: "env \<Rightarrow> string \<Rightarrow> world \<Rightarrow> world promise" where
  "rm env dir w =
     (if rmFails env dir then Rejected (RemoveFailed dir)
      else Resolved (w\<lparr>files := (\<lambda>p. if insideDir dir p then None else files w p),
                       dirs := dirs w - {d. insideDir dir d}\<rparr>))"

text \<open>\<open>.catch(() => {})\<close> after a promise of the world: a rejection resolves, world unchanged.\<close>

definition catchIgnore :: "world \<Rightarrow> world promise \<Rightarrow> world promise" where
  "catchIgnore w p = (case p of Rejected e \<Rightarrow> Resolved w | _ \<Rightarrow> p)"

text \<open>One run of the engine: the command is logged, the answer decides what is on disk.\<close>

fun jobOutput :: "ff_job \<Rightarrow> string" where
  "jobOutput (Synthesize input fs output) = output"
| "jobOutput (Mix inputs output) = output"

definition runFfmpeg :: "env \<Rightarrow> ff_job \<Rightarrow> world \<Rightarrow> ff_result \<times> world" where
  "runFfmpeg env job w =
     (let answer = ffmpeg env (files w) job;
          w1 = w\<lparr>runs := runs w @ [job]\<rparr>
      in case answer of
           End bytes \<Rightarrow> (answer, w1\<lparr>files := (files w1)(jobOutput job \<mapsto> bytes)\<rparr>)
         | Error msg None \<Rightarrow> (answer, w1)
         | Error msg (Some bytes) \<Rightarrow> (answer, w1\<lparr>files := (files w1)(jobOutput job \<mapsto> bytes)\<rparr>))"

section \<open>\<open>prepareAudio\<close>, \<open>mergeAudioTracks\<close>, \<open>generateAudio\<close>, \<open>mergeMedia\<close>\<close>

text \<open>\<open>asset.key.replace(/[/[\]]/g, '-')\<close>: every \<open>/\<close>, \<open>[\<close> and \<open>]\<close> becomes \<open>-\<close>.\<close>

definition sanitizedKey :: "string \<Rightarrow> string" where
  "sanitizedKey k =
     map (\<lambda>c. if c = CHR ''/'' \<or> c = CHR ''['' \<or> c = CHR '']'' then CHR ''-'' else c) k"

definition outputPath :: "string \<Rightarrow> string \<Rightarrow> string" where
  "outputPath tempDir k = path_join tempDir (sanitizedKey k @ ''.wav'')"

definition prepareAudio ::
  "env \<Rightarrow> string \<Rightarrow> string \<Rightarrow> MediaAsset \<Rightarrow> int \<Rightarrow> int \<Rightarrow> real \<Rightarrow> world
     \<Rightarrow> (string \<times> world) promise" where
  "prepareAudio env outputDir tempDir asset startFrame endFrame fps w =
     (case getSampleRate env (resolvePath env outputDir (src asset)) of
        Inl e \<Rightarrow> Rejected e
      | Inr assetSampleRate \<Rightarrow>
          (case calculateAtempoFilters (playbackRate asset) of
             None \<Rightarrow> Pending
           | Some atempoFilters \<Rightarrow>
               (let resolvedPath = resolvePath env outputDir (src asset);
                    job = Synthesize resolvedPath
                            (audioFilters asset startFrame endFrame fps assetSampleRate
                               atempoFilters)
                            (outputPath tempDir (key asset))
                in case runFfmpeg env job w of
                     (End bytes, w') \<Rightarrow> Resolved (outputPath tempDir (key asset), w')
                   | (Error err written, w') \<Rightarrow> Rejected (EngineError err))))"

definition mergeAudioTracks :: "env \<Rightarrow> string \<Rightarrow> string list \<Rightarrow> world \<Rightarrow> world promise" where
  "mergeAudioTracks env tempDir audioFilenames w =
     (case runFfmpeg env (Mix audioFilenames (path_join tempDir ''audio.wav'')) w of
        (End bytes, w') \<Rightarrow> Resolved w'
      | (Error err written, w') \<Rightarrow> Rejected (EngineError err))"

text \<open>The body of the loop of \<open>generateAudio\<close> for one asset: the skip decision.\<close>

definition synthesizeOne ::
  "env \<Rightarrow> string \<Rightarrow> string \<Rightarrow> int \<Rightarrow> int \<Rightarrow> real \<Rightarrow> MediaAsset \<Rightarrow> string list \<times> world
     \<Rightarrow> (string list \<times> world) promise" where
  "synthesizeOne env outputDir fullTempDir startFrame endFrame fps asset st =
     (case (if type asset \<noteq> Audio
            then checkForAudioStream env (resolvePath env outputDir (src asset))
            else Inr True) of
        Inl e \<Rightarrow> Rejected e
      | Inr hasAudioStream \<Rightarrow>
          if playbackRate asset \<noteq> 0 \<and> volume asset \<noteq> 0 \<and> hasAudioStream then
            (case prepareAudio env outputDir fullTempDir asset startFrame endFrame fps (snd st) of
               Resolved (filename, w') \<Rightarrow> Resolved (fst st @ [filename], w')
             | Rejected e \<Rightarrow> Rejected e
             | Pending \<Rightarrow> Pending)
          else Resolved st)"

fun synthesizeAll ::
  "env \<Rightarrow> string \<Rightarrow> string \<Rightarrow> int \<Rightarrow> int \<Rightarrow> real \<Rightarrow> MediaAsset list \<Rightarrow> string list \<times> world
     \<Rightarrow> (string list \<times> world) promise" where
  "synthesizeAll env outputDir fullTempDir startFrame endFrame fps [] st = Resolved st"
| "synthesizeAll env outputDir fullTempDir startFrame endFrame fps (asset # rest) st =
     (case synthesizeOne env outputDir fullTempDir startFrame endFrame fps asset st of
        Resolved st' \<Rightarrow> synthesizeAll env outputDir fullTempDir startFrame endFrame fps rest st'
      | Rejected e \<Rightarrow> Rejected e
      | Pending \<Rightarrow> Pending)"

definition generateAudio ::
  "env \<Rightarrow> string \<Rightarrow> string \<Rightarrow> AssetInfo list list \<Rightarrow> int \<Rightarrow> int \<Rightarrow> real \<Rightarrow> world
     \<Rightarrow> (string list \<times> world) promise" where
  "generateAudio env outputDir tempDir assetFrames startFrame endFrame fps w =
     (let fullTempDir = path_join (tmpdir env) tempDir;
          w1 = makeSureFolderExists outputDir w;
          w2 = makeSureFolderExists fullTempDir w1
      in case getAssetPlacement assetFrames of
           Inl e \<Rightarrow> Rejected e
         | Inr assetPositions \<Rightarrow>
             (case synthesizeAll env outputDir fullTempDir startFrame endFrame fps
                     assetPositions ([], w2) of
                Resolved (audioFilenames, w3) \<Rightarrow>
                  if length audioFilenames > 0 then
                    (case mergeAudioTracks env fullTempDir audioFilenames w3 of
                       Resolved w4 \<Rightarrow> Resolved (audioFilenames, w4)
                     | Rejected e \<Rightarrow> Rejected e
                     | Pending \<Rightarrow> Pending)
                  else Resolved (audioFilenames, w3)
              | Rejected e \<Rightarrow> Rejected e
              | Pending \<Rightarrow> Pending))"

text \<open>The cleanup at the end of \<open>mergeMedia\<close>.\<close>

definition cleanup :: "env \<Rightarrow> string \<Rightarrow> world \<Rightarrow> world promise" where
  "cleanup env fullTempDir w =
     (if endsWith fullTempDir ''-undefined''
      then catchIgnore w (rm env fullTempDir w)
      else Resolved w)"

text \<open>\<open>mergeMedia\<close> up to the cleanup: mux when \<open>audio.wav\<close> exists, else copy the visuals.\<close>

definition mergeOrCopy ::
  "env \<Rightarrow> string \<Rightarrow> string \<Rightarrow> string \<Rightarrow> format \<Rightarrow> world \<Rightarrow> world promise" where
  "mergeOrCopy env outputFilename outputDir tempDir fmt w =
     (let fullTempDir = path_join (tmpdir env) tempDir;
          w1 = makeSureFolderExists outputDir w;
          w2 = makeSureFolderExists fullTempDir w1;
          audioWavExists = pathExists w2 (path_join fullTempDir ''audio.wav'');
          visuals = path_join fullTempDir (''visuals.'' @ extensions env fmt);
          destination = path_join outputDir (outputFilename @ ''.'' @ extensions env fmt)
      in if audioWavExists
         then mergeAudioWithVideo env (path_join fullTempDir ''audio.wav'') visuals
                destination (audioCodecs fmt) w2
         else copyFile visuals destination w2)"

definition mergeMedia ::
  "env \<Rightarrow> string \<Rightarrow> string \<Rightarrow> string \<Rightarrow> format \<Rightarrow> world \<Rightarrow> world promise" where
  "mergeMedia env outputFilename outputDir tempDir fmt w =
     (case mergeOrCopy env outputFilename outputDir tempDir fmt w of
        Resolved w3 \<Rightarrow> cleanup env (path_join (tmpdir env) tempDir) w3
      | Rejected e \<Rightarrow> Rejected e
      | Pending \<Rightarrow> Pending)"

section \<open>Invariant of the reconstruction loop\<close>

text \<open>
  After the samples \<open>seen\<close> have been folded in: no recorded envelope is empty; every asset
  of the array has its entries in the maps, and took its base volume and loop flag from the
  first sample seen with its key; every key seen is in the time map.
\<close>

definition placementInv :: "AssetInfo list \<Rightarrow> placement \<Rightarrow> bool" where
  "placementInv seen st =
     ((\<forall>k changes. assetVolumeMap st k = Some changes \<longrightarrow> changes \<noteq> [])
      \<and> (\<forall>a \<in> set (assets st).
            assetTimeMap st (key a) \<noteq> None
            \<and> assetLoopMap st (key a) = Some (orFalse (loop a))
            \<and> (\<exists>s. find (\<lambda>s. ai_key s = key a) seen = Some s
                     \<and> volume a = ai_volume s \<and> loop a = ai_loop s))
      \<and> (\<forall>s \<in> set seen. assetTimeMap st (ai_key s) \<noteq> None))"

section \<open>Concrete inputs\<close>

text \<open>An environment in which every probe succeeds and the engine writes a few bytes.\<close>

definition demoEnv :: env where
  "demoEnv =
     \<lparr>tmpdir = ''/tmp'',
      resolvePath = path_join,
      extensions = (\<lambda>fmt. case fmt of mp4 \<Rightarrow> ''mp4'' | webm \<Rightarrow> ''webm'' | proRes \<Rightarrow> ''mov''),
      checkForAudioStream = (\<lambda>p. Inr True),
      getSampleRate = (\<lambda>p. Inr 48000),
      ffmpeg = (\<lambda>fs job. case job of
                  Synthesize input chain output \<Rightarrow> End [length input]
                | Mix inputs output \<Rightarrow> End [length inputs]),
      mergeAudioWithVideo = (\<lambda>audioPath visuals destination codec w. Resolved w),
      rmFails = (\<lambda>dir. False)\<rparr>"

definition emptyWorld :: world where
  "emptyWorld = \<lparr>files = Map.empty, dirs = {}, runs = []\<rparr>"

text \<open>A looping track sampled on both sides of its wrap-around, 13.8 s then 0.1 s.\<close>

definition loopSample :: "real \<Rightarrow> AssetInfo" where
  "loopSample t =
     \<lparr>ai_key = ''music'', ai_type = Audio, ai_src = ''music.mp3'', ai_playbackRate = 1,
      ai_volume = 0.8, ai_currentTime = t, ai_loop = Some True\<rparr>"

definition loopFrames :: "AssetInfo list list" where
  "loopFrames = [[loopSample 13.8], [loopSample 0.1]]"

definition loopSpan :: MediaAsset where
  "loopSpan =
     \<lparr>key = ''music'', src = ''music.mp3'', type = Audio, startInVideo = 0, endInVideo = 1,
      duration = 2, playbackRate = 1, volume = 0.8, trimLeftInSeconds = 13.8,
      durationInSeconds = PInf, loop = Some True, volumeChanges = None\<rparr>"

text \<open>A video whose volume starts at 0 and rises to 1 in the next frame.\<close>

definition riserSample :: "real \<Rightarrow> real \<Rightarrow> AssetInfo" where
  "riserSample t v =
     \<lparr>ai_key = ''riser'', ai_type = Video, ai_src = ''riser.mp4'', ai_playbackRate = 1,
      ai_volume = v, ai_currentTime = t, ai_loop = None\<rparr>"

definition riserFrames :: "AssetInfo list list" where
  "riserFrames = [[riserSample 0 0], [riserSample 0.5 1]]"

definition riserSpan :: MediaAsset where
  "riserSpan =
     \<lparr>key = ''riser'', src = ''riser.mp4'', type = Video, startInVideo = 0, endInVideo = 1,
      duration = 2, playbackRate = 1, volume = 0, trimLeftInSeconds = 0,
      durationInSeconds = Num (1/2), loop = None, volumeChanges = Some [(0, 0), (1, 1)]\<rparr>"

text \<open>
  The end-to-end scenario: asset \<open>A\<close>, not looping, at frames 0, 1, 2 with current time
  0.0, 0.033, 0.066; volume 1.0 until it drops to 0.0 at frame 2.
\<close>

definition scenarioSample :: "real \<Rightarrow> real \<Rightarrow> AssetInfo" where
  "scenarioSample t v =
     \<lparr>ai_key = ''A'', ai_type = Audio, ai_src = ''A.mp3'', ai_playbackRate = 1,
      ai_volume = v, ai_currentTime = t, ai_loop = Some False\<rparr>"

definition scenarioFrames :: "AssetInfo list list" where
  "scenarioFrames = [[scenarioSample 0 1], [scenarioSample 0.033 1], [scenarioSample 0.066 0]]"

definition scenarioSpan :: MediaAsset where
  "scenarioSpan =
     \<lparr>key = ''A'', src = ''A.mp3'', type = Audio, startInVideo = 0, endInVideo = 2,
      duration = 3, playbackRate = 1, volume = 1, trimLeftInSeconds = 0,
      durationInSeconds = Num (33/500), loop = Some False,
      volumeChanges = Some [(0, 1), (2, 0)]\<rparr>"

text \<open>The looping track played 250 times faster, first seen at frame 3.\<close>

definition fastLoopSpan :: MediaAsset where
  "fastLoopSpan = loopSpan\<lparr>playbackRate := 250, startInVideo := 3, endInVideo := 4\<rparr>"

text \<open>A clip that is not looping and whose current time goes back from 5 s to 0 s.\<close>

definition rewindSample :: "real \<Rightarrow> AssetInfo" where
  "rewindSample t =
     \<lparr>ai_key = ''clip'', ai_type = Audio, ai_src = ''clip.mp3'', ai_playbackRate = 1,
      ai_volume = 1, ai_currentTime = t, ai_loop = Some False\<rparr>"

definition rewindFrames :: "AssetInfo list list" where
  "rewindFrames = [[rewindSample 5], [rewindSample 0]]"

definition rewindSpan :: MediaAsset where
  "rewindSpan =
     \<lparr>key = ''clip'', src = ''clip.mp3'', type = Audio, startInVideo = 0, endInVideo = 1,
      duration = 2, playbackRate = 1, volume = 1, trimLeftInSeconds = 5,
      durationInSeconds = Num (- 5), loop = Some False, volumeChanges = None\<rparr>"

text \<open>The same environment with an engine that reports success and writes zero bytes.\<close>

definition silentEnv :: env where
  "silentEnv = demoEnv\<lparr>ffmpeg := (\<lambda>fs job. End [])\<rparr>"

text \<open>Temp directories holding a rendered visual container, without and with the marker.\<close>

definition renderWorld :: world where
  "renderWorld =
     \<lparr>files = [''/tmp/render-7/visuals.mp4'' \<mapsto> [82, 73, 70]],
      dirs = {''/tmp/render-7''}, runs = []\<rparr>"

definition disposableWorld :: world where
  "disposableWorld =
     \<lparr>files = [''/tmp/render-undefined/visuals.mp4'' \<mapsto> [82, 73, 70]],
      dirs = {''/tmp/render-undefined''}, runs = []\<rparr>"

text \<open>Two assets whose keys differ only in a character the sanitizer replaces.\<close>

definition slashSpan :: MediaAsset where
  "slashSpan = scenarioSpan\<lparr>key := ''a/b'', src := ''one.mp3''\<rparr>"

definition dashSpan :: MediaAsset where
  "dashSpan = scenarioSpan\<lparr>key := ''a-b'', src := ''second.mp3''\<rparr>"

text \<open>The scenario with the volume at frame 1 halfway down: three breakpoints.\<close>

definition gradualFrames :: "AssetInfo list list" where
  "gradualFrames =
     [[scenarioSample 0 1], [scenarioSample 0.033 0.5], [scenarioSample 0.066 0]]"

definition gradualSpan :: MediaAsset where
  "gradualSpan = scenarioSpan\<lparr>volumeChanges := Some [(0, 1), (1, 1/2), (2, 0)]\<rparr>"

text \<open>
  An environment whose \<open>mergeAudioWithVideo\<close> writes the visuals followed by the audio to
  the destination, and a temp directory that already holds an \<open>audio.wav\<close>.
\<close>

definition muxEnv :: env where
  "muxEnv =
     demoEnv\<lparr>mergeAudioWithVideo :=
       (\<lambda>audioPath visuals destination codec w.
          case files w audioPath of
            None \<Rightarrow> Rejected (NoSuchFile audioPath)
          | Some a \<Rightarrow>
              (case files w visuals of
                 None \<Rightarrow> Rejected (NoSuchFile visuals)
               | Some v \<Rightarrow> Resolved (w\<lparr>files := (files w)(destination \<mapsto> v @ a)\<rparr>)))\<rparr>"

definition staleWorld :: world where
  "staleWorld =
     \<lparr>files = [''/tmp/render-7/visuals.mp4'' \<mapsto> [82, 73, 70],
               ''/tmp/render-7/audio.wav'' \<mapsto> [65]],
      dirs = {''/tmp/render-7''}, runs = []\<rparr>"

section \<open>Facts about the tempo loops\<close>

lemma speedUpLoop_prod:
  "prod_list (snd (speedUpLoop rate fs)) * fst (speedUpLoop rate fs) = prod_list fs * rate"
  by (induction rate fs rule: speedUpLoop.induct) simp

lemma speedUpLoop_set:
  "set (snd (speedUpLoop rate fs)) \<subseteq> set fs \<union> {100}"
  by (induction rate fs rule: speedUpLoop.induct) auto

lemma speedUpLoop_range:
  "1 < rate \<Longrightarrow> 1 < fst (speedUpLoop rate fs) \<and> fst (speedUpLoop rate fs) \<le> 100"
  by (induction rate fs rule: speedUpLoop.induct) auto

lemma slowDownLoop_done: "1/2 \<le> rate \<Longrightarrow> slowDownLoop rate fs = Some (rate, fs)"
  by (subst slowDownLoop.simps) simp

text \<open>If \<open>n\<close> doublings reach 0.5, the loop returns after at most \<open>n\<close> rounds.\<close>

lemma slowDownLoop_fuel:
  "0 < rate \<Longrightarrow> 1/2 \<le> rate * 2 ^ n \<Longrightarrow>
   \<exists>m. slowDownLoop rate fs = Some (rate * 2 ^ m, fs @ replicate m (1/2))
     \<and> 1/2 \<le> rate * 2 ^ m \<and> (0 < m \<longrightarrow> rate * 2 ^ m < 1)"
proof (induction n arbitrary: rate fs)
  case 0
  then have "slowDownLoop rate fs = Some (rate, fs)" by (simp add: slowDownLoop_done)
  then show ?case using 0 by (intro exI[of _ 0]) simp
next
  case (Suc n)
  show ?case
  proof (cases "rate < 1/2")
    case False
    then have "slowDownLoop rate fs = Some (rate, fs)" by (simp add: slowDownLoop_done)
    then show ?thesis using False by (intro exI[of _ 0]) simp
  next
    case True
    have step: "slowDownLoop rate fs = slowDownLoop (rate * 2) (fs @ [1/2])"
      using True by (subst slowDownLoop.simps) simp
    have "0 < rate * 2" and "1/2 \<le> rate * 2 * 2 ^ n"
      using Suc.prems by (simp_all add: mult.assoc)
    from Suc.IH[OF this, of "fs @ [1/2]"] obtain m where
      m: "slowDownLoop (rate * 2) (fs @ [1/2]) =
            Some (rate * 2 * 2 ^ m, (fs @ [1/2]) @ replicate m (1/2))"
         "1/2 \<le> rate * 2 * 2 ^ m" "0 < m \<longrightarrow> rate * 2 * 2 ^ m < 1"
      by blast
    have lt1: "rate * 2 ^ Suc m < 1"
    proof (cases m)
      case 0
      then show ?thesis using True by simp
    next
      case (Suc k)
      then show ?thesis using m(3) by (simp add: mult.assoc)
    qed
    have "slowDownLoop rate fs = Some (rate * 2 ^ Suc m, fs @ replicate (Suc m) (1/2))"
      using step m(1) by (simp add: mult.assoc replicate_append_same)
    moreover have "1/2 \<le> rate * 2 ^ Suc m" using m(2) by (simp add: mult.assoc)
    ultimately show ?thesis using lt1 by blast
  qed
qed

lemma slowDownLoop_returns:
  assumes "0 < rate"
  shows "\<exists>m. slowDownLoop rate fs = Some (rate * 2 ^ m, fs @ replicate m (1/2))
     \<and> 1/2 \<le> rate * 2 ^ m \<and> (0 < m \<longrightarrow> rate * 2 ^ m < 1)"
proof -
  obtain n :: nat where "1 / (2 * rate) < 2 ^ n"
    using real_arch_pow[of 2 "1 / (2 * rate)"] by auto
  then have "1/2 \<le> rate * 2 ^ n"
    using assms by (simp add: field_simps)
  from slowDownLoop_fuel[OF assms this] show ?thesis .
qed

text \<open>For a rate of zero or less the second loop, and so the function, never returns.\<close>

lemma slowDownLoop_Some_positive:
  assumes "slowDownLoop rate fs = Some y"
  shows "0 < rate"
proof (rule slowDownLoop.raw_induct[where P = "\<lambda>rate fs y. 0 < rate", OF _ assms])
  fix loop :: "real \<Rightarrow> real list \<Rightarrow> (real \<times> real list) option"
  fix rate :: real and fs :: "real list" and y :: "real \<times> real list"
  assume ih: "\<And>r gs z. loop r gs = Some z \<Longrightarrow> 0 < r"
    and body: "(if rate < 5 / 10 then loop (rate * 2) (fs @ [5 / 10]) else Some (rate, fs)) = Some y"
  show "0 < rate"
  proof (cases "rate < 5 / 10")
    case True
    with body have "loop (rate * 2) (fs @ [5 / 10]) = Some y" by simp
    from ih[OF this] show ?thesis by simp
  next
    case False
    then show ?thesis by simp
  qed
qed

lemma slowDownLoop_never_returns: "rate \<le> 0 \<Longrightarrow> slowDownLoop rate fs = None"
  using slowDownLoop_Some_positive[of rate fs] by (cases "slowDownLoop rate fs") auto

lemma calculateAtempoFilters_never_returns:
  "r \<le> 0 \<Longrightarrow> calculateAtempoFilters r = None"
  by (simp add: calculateAtempoFilters_def slowDownLoop_never_returns split: prod.splits)

lemma calculateAtempoFilters_one: "calculateAtempoFilters 1 = Some []"
  by (simp add: calculateAtempoFilters_def slowDownLoop.simps)

section \<open>Lists\<close>

lemma find_snoc:
  "find P (xs @ [x]) = (case find P xs of Some y \<Rightarrow> Some y | None \<Rightarrow> if P x then Some x else None)"
  by (induction xs) auto

lemma find_None_iff_set: "find P xs = None \<longleftrightarrow> (\<forall>x \<in> set xs. \<not> P x)"
  by (induction xs) auto

lemma update_first_set:
  "a' \<in> set (update_first P f xs) \<Longrightarrow> a' \<in> set xs \<or> (\<exists>a \<in> set xs. a' = f a)"
  by (induction xs) (auto split: if_splits)

section \<open>The reconstruction loop keeps its invariant and never throws\<close>

lemma placementInv_empty: "placementInv [] emptyPlacement"
  by (simp add: placementInv_def emptyPlacement_def)

lemma recordSample_new:
  assumes inv: "placementInv seen st" and new: "assetTimeMap st (ai_key s) = None"
  shows "\<exists>st'. recordSample frame st s = Inr st' \<and> placementInv (seen @ [s]) st'"
proof -
  let ?k = "ai_key s"
  define st' where "st' = st\<lparr>assetTimeMap := (assetTimeMap st)(?k \<mapsto> (ai_currentTime s, ai_currentTime s)),
                   assetLoopMap := (assetLoopMap st)(?k \<mapsto> orFalse (ai_loop s)),
                   assetVolumeMap := (assetVolumeMap st)(?k \<mapsto> [(0, ai_volume s)]),
                   assets := assets st @
                     [\<lparr>key = ?k, src = ai_src s, type = ai_type s,
                       startInVideo = frame, endInVideo = frame, duration = 0,
                       playbackRate = ai_playbackRate s, volume = ai_volume s,
                       trimLeftInSeconds = ai_currentTime s, durationInSeconds = Num 0,
                       loop = ai_loop s, volumeChanges = None\<rparr>]\<rparr>"
  have r: "recordSample frame st s = Inr st'"
    using new by (simp add: recordSample_def st'_def)
  have notseen: "find (\<lambda>x. ai_key x = ?k) seen = None"
    using inv new by (auto simp: placementInv_def find_None_iff_set)
  have old: "\<And>a. a \<in> set (assets st) \<Longrightarrow> key a \<noteq> ?k"
    using inv new by (auto simp: placementInv_def)
  have p1: "\<forall>k changes. assetVolumeMap st' k = Some changes \<longrightarrow> changes \<noteq> []"
    using inv by (auto simp: st'_def placementInv_def split: if_splits)
  have p2: "\<forall>a \<in> set (assets st'). assetTimeMap st' (key a) \<noteq> None \<and>
         assetLoopMap st' (key a) = Some (orFalse (loop a)) \<and>
         (\<exists>sa. find (\<lambda>s. ai_key s = key a) (seen @ [s]) = Some sa \<and> volume a = ai_volume sa \<and> loop a = ai_loop sa)"
  proof
    fix a assume a: "a \<in> set (assets st')"
    then consider (o) "a \<in> set (assets st)" | (n) "key a = ?k" "volume a = ai_volume s" "loop a = ai_loop s"
      by (auto simp: st'_def)
    then show "assetTimeMap st' (key a) \<noteq> None \<and>
         assetLoopMap st' (key a) = Some (orFalse (loop a)) \<and>
         (\<exists>sa. find (\<lambda>s. ai_key s = key a) (seen @ [s]) = Some sa \<and> volume a = ai_volume sa \<and> loop a = ai_loop sa)"
    proof cases
      case o
      then have "key a \<noteq> ?k" by (rule old)
      moreover from inv o obtain sa where "assetTimeMap st (key a) \<noteq> None"
        "assetLoopMap st (key a) = Some (orFalse (loop a))"
        "find (\<lambda>s. ai_key s = key a) seen = Some sa" "volume a = ai_volume sa" "loop a = ai_loop sa"
        by (auto simp: placementInv_def)
      ultimately show ?thesis by (simp add: st'_def find_snoc)
    next
      case n
      then show ?thesis using notseen by (simp add: st'_def find_snoc)
    qed
  qed
  have p3: "\<forall>x \<in> set (seen @ [s]). assetTimeMap st' (ai_key x) \<noteq> None"
    using inv by (auto simp: st'_def placementInv_def)
  have "placementInv (seen @ [s]) st'"
    unfolding placementInv_def using p1 p2 p3 by blast
  with r show ?thesis by blast
qed


lemma recordSample_old:
  assumes inv: "placementInv seen st" and old: "assetTimeMap st (ai_key s) = Some timeInfo"
  shows "\<exists>st'. recordSample frame st s = Inr st' \<and> placementInv (seen @ [s]) st'"
proof -
  let ?k = "ai_key s"
  let ?P = "\<lambda>a. key a = ?k"
  define st1 where "st1 = st\<lparr>assetTimeMap := (assetTimeMap st)(?k \<mapsto> (fst timeInfo, ai_currentTime s))\<rparr>"
  have inv1: "placementInv (seen @ [s]) st1"
  proof -
    have p1: "\<forall>k changes. assetVolumeMap st1 k = Some changes \<longrightarrow> changes \<noteq> []"
      using inv by (auto simp: st1_def placementInv_def)
    have p2: "\<forall>a \<in> set (assets st1). assetTimeMap st1 (key a) \<noteq> None \<and>
         assetLoopMap st1 (key a) = Some (orFalse (loop a)) \<and>
         (\<exists>sa. find (\<lambda>s. ai_key s = key a) (seen @ [s]) = Some sa \<and> volume a = ai_volume sa \<and> loop a = ai_loop sa)"
      using inv by (fastforce simp: st1_def placementInv_def find_snoc)
    have p3: "\<forall>x \<in> set (seen @ [s]). assetTimeMap st1 (ai_key x) \<noteq> None"
      using inv by (auto simp: st1_def placementInv_def)
    show ?thesis unfolding placementInv_def using p1 p2 p3 by blast
  qed
  show ?thesis
  proof (cases "find ?P (assets st1)")
    case None
    then have "recordSample frame st s = Inr st1"
      using old by (simp add: recordSample_def st1_def)
    with inv1 show ?thesis by blast
  next
    case (Some existingAsset)
    define st2 where "st2 = st1\<lparr>assets := update_first ?P (\<lambda>a. a\<lparr>endInVideo := frame\<rparr>) (assets st1)\<rparr>"
    have proj: "\<And>a'. a' \<in> set (assets st2) \<Longrightarrow>
        \<exists>a \<in> set (assets st1). key a' = key a \<and> volume a' = volume a \<and> loop a' = loop a"
      using update_first_set[of _ ?P "\<lambda>a. a\<lparr>endInVideo := frame\<rparr>" "assets st1"]
      by (fastforce simp: st2_def)
    have inv2: "placementInv (seen @ [s]) st2"
    proof -
      have p1: "\<forall>k changes. assetVolumeMap st2 k = Some changes \<longrightarrow> changes \<noteq> []"
        using inv1 by (auto simp: st2_def placementInv_def)
      have p2: "\<forall>a \<in> set (assets st2). assetTimeMap st2 (key a) \<noteq> None \<and>
         assetLoopMap st2 (key a) = Some (orFalse (loop a)) \<and>
         (\<exists>sa. find (\<lambda>s. ai_key s = key a) (seen @ [s]) = Some sa \<and> volume a = ai_volume sa \<and> loop a = ai_loop sa)"
      proof
        fix a' assume "a' \<in> set (assets st2)"
        from proj[OF this] obtain a where a: "a \<in> set (assets st1)" "key a' = key a"
          "volume a' = volume a" "loop a' = loop a" by blast
        from inv1 a(1) have "assetTimeMap st1 (key a) \<noteq> None \<and>
         assetLoopMap st1 (key a) = Some (orFalse (loop a)) \<and>
         (\<exists>sa. find (\<lambda>s. ai_key s = key a) (seen @ [s]) = Some sa \<and> volume a = ai_volume sa \<and> loop a = ai_loop sa)"
          unfolding placementInv_def by blast
        then show "assetTimeMap st2 (key a') \<noteq> None \<and>
         assetLoopMap st2 (key a') = Some (orFalse (loop a')) \<and>
         (\<exists>sa. find (\<lambda>s. ai_key s = key a') (seen @ [s]) = Some sa \<and> volume a' = ai_volume sa \<and> loop a' = ai_loop sa)"
          using a(2-4) by (simp add: st2_def)
      qed
      have p3: "\<forall>x \<in> set (seen @ [s]). assetTimeMap st2 (ai_key x) \<noteq> None"
        using inv1 by (simp add: st2_def placementInv_def)
      show ?thesis unfolding placementInv_def using p1 p2 p3 by blast
    qed
    show ?thesis
    proof (cases "assetVolumeMap st2 ?k")
      case None
      then have "recordSample frame st s = Inr st2"
        using old Some by (simp add: recordSample_def st1_def st2_def Let_def)
      with inv2 show ?thesis by blast
    next
      case (Some changes)
      note vc = this
      have ne: "changes \<noteq> []" using inv2 vc unfolding placementInv_def by blast
      define st3 where "st3 = st2\<lparr>assetVolumeMap := (assetVolumeMap st2)(?k \<mapsto>
            changes @ [(frame - startInVideo existingAsset, ai_volume s)])\<rparr>"
      have inv3: "placementInv (seen @ [s]) st3"
      proof -
        have p1: "\<forall>k c. assetVolumeMap st3 k = Some c \<longrightarrow> c \<noteq> []"
          using inv2 by (auto simp: st3_def placementInv_def)
        have p2: "\<forall>a \<in> set (assets st3). assetTimeMap st3 (key a) \<noteq> None \<and>
         assetLoopMap st3 (key a) = Some (orFalse (loop a)) \<and>
         (\<exists>sa. find (\<lambda>s. ai_key s = key a) (seen @ [s]) = Some sa \<and> volume a = ai_volume sa \<and> loop a = ai_loop sa)"
          using inv2 unfolding placementInv_def by (simp add: st3_def)
        have p3: "\<forall>x \<in> set (seen @ [s]). assetTimeMap st3 (ai_key x) \<noteq> None"
          using inv2 unfolding placementInv_def by (simp add: st3_def)
        show ?thesis unfolding placementInv_def using p1 p2 p3 by blast
      qed
      have "recordSample frame st s = Inr st3 \<or> recordSample frame st s = Inr st2"
        using old \<open>find ?P (assets st1) = Some existingAsset\<close> vc ne
        by (simp add: recordSample_def st1_def st2_def st3_def Let_def)
      with inv2 inv3 show ?thesis by blast
    qed
  qed
qed

lemma recordSample_inv:
  assumes "placementInv seen st"
  shows "\<exists>st'. recordSample frame st s = Inr st' \<and> placementInv (seen @ [s]) st'"
  using assms recordSample_new recordSample_old by (cases "assetTimeMap st (ai_key s)") blast+

lemma forSamples_inv:
  "placementInv seen st \<Longrightarrow>
   \<exists>st'. forSamples frame samples st = Inr st' \<and> placementInv (seen @ samples) st'"
proof (induction samples arbitrary: seen st)
  case Nil
  then show ?case by simp
next
  case (Cons s rest)
  from recordSample_inv[OF Cons.prems, of frame s] obtain st1 where
    st1: "recordSample frame st s = Inr st1" "placementInv (seen @ [s]) st1" by blast
  from Cons.IH[OF st1(2)] show ?case using st1(1) by simp
qed

lemma forFrames_inv:
  "placementInv seen st \<Longrightarrow>
   \<exists>st'. forFrames frame frames st = Inr st' \<and> placementInv (seen @ concat frames) st'"
proof (induction frames arbitrary: seen st frame)
  case Nil
  then show ?case by simp
next
  case (Cons samples rest)
  from forSamples_inv[OF Cons.prems, of frame samples] obtain st1 where
    st1: "forSamples frame samples st = Inr st1" "placementInv (seen @ samples) st1" by blast
  from Cons.IH[OF st1(2), of "frame + 1"] show ?case using st1(1) by simp
qed

lemma getAssetPlacement_total:
  "\<exists>st. forFrames 0 frames emptyPlacement = Inr st \<and> placementInv (concat frames) st
     \<and> getAssetPlacement frames = Inr (map (computeDuration st) (map (attachVolumeChanges st) (assets st)))"
  using forFrames_inv[OF placementInv_empty, of 0 frames]
  by (auto simp: getAssetPlacement_def)

section \<open>What the two final passes keep and set\<close>

lemma attachVolumeChanges_fields:
  "key (attachVolumeChanges st a) = key a"
  "volume (attachVolumeChanges st a) = volume a"
  "loop (attachVolumeChanges st a) = loop a"
  by (simp_all add: attachVolumeChanges_def split: option.splits)

lemma computeDuration_fields:
  "key (computeDuration st a) = key a"
  "volume (computeDuration st a) = volume a"
  "loop (computeDuration st a) = loop a"
  by (simp_all add: computeDuration_def Let_def split: option.splits)

lemma computeDuration_looping:
  assumes "assetTimeMap st (key a) = Some timeInfo" and "assetLoopMap st (key a) = Some True"
  shows "durationInSeconds (computeDuration st a) = PInf"
  using assms by (simp add: computeDuration_def Let_def js_eq_def)

text \<open>Every span returned comes from an asset of the final array, with the invariant.\<close>

lemma getAssetPlacement_span:
  assumes "getAssetPlacement frames = Inr spans" and "a \<in> set spans"
  shows "\<exists>st a0. placementInv (concat frames) st \<and> a0 \<in> set (assets st)
           \<and> a = computeDuration st (attachVolumeChanges st a0)"
proof -
  from getAssetPlacement_total[of frames] obtain st where
    st: "placementInv (concat frames) st"
        "getAssetPlacement frames = Inr (map (computeDuration st) (map (attachVolumeChanges st) (assets st)))"
    by blast
  from st(2) assms(1) have "spans = map (computeDuration st) (map (attachVolumeChanges st) (assets st))"
    by simp
  with assms(2) obtain a0 where "a0 \<in> set (assets st)"
    "a = computeDuration st (attachVolumeChanges st a0)" by auto
  with st(1) show ?thesis by blast
qed

lemma getAssetPlacement_first_sample:
  assumes "getAssetPlacement frames = Inr spans" and "a \<in> set spans"
  shows "\<exists>s. find (\<lambda>s. ai_key s = key a) (concat frames) = Some s
            \<and> volume a = ai_volume s \<and> loop a = ai_loop s"
proof -
  from getAssetPlacement_span[OF assms] obtain st a0 where
    h: "placementInv (concat frames) st" "a0 \<in> set (assets st)"
       "a = computeDuration st (attachVolumeChanges st a0)" by blast
  from h(1,2) obtain s where "find (\<lambda>s. ai_key s = key a0) (concat frames) = Some s"
    "volume a0 = ai_volume s" "loop a0 = ai_loop s"
    unfolding placementInv_def by blast
  then show ?thesis
    using h(3) by (simp add: computeDuration_fields attachVolumeChanges_fields)
qed

section \<open>The chain \<open>prepareAudio\<close> hands to the engine\<close>

lemma volumeFilters_stage: "f \<in> set (volumeFilters asset fps) \<Longrightarrow> stage f = 5"
  by (auto simp: volumeFilters_def Let_def split: option.splits if_splits)

lemma audioFilters_shape:
  "audioFilters asset startFrame endFrame fps sr tempo =
     (if needsLooping asset then [Aloop (loopCount asset startFrame endFrame fps)] else [])
     @ map Atempo tempo
     @ [Atrim (trimLeft asset) (trimRight asset startFrame endFrame fps),
        Apad (padEnd asset startFrame endFrame fps sr),
        Adelay (padStart asset fps)]
     @ volumeFilters asset fps"
  by (simp add: audioFilters_def Let_def)

lemma sorted_map_const: "(\<forall>x \<in> set xs. f x = (c::nat)) \<Longrightarrow> sorted (map f xs)"
  by (induction xs) auto

lemma audioFilters_sorted:
  "sorted (map stage (audioFilters asset startFrame endFrame fps sr tempo))"
proof -
  have t: "sorted (map stage (map Atempo tempo))"
    by (rule sorted_map_const[where c = 1]) simp
  have v: "sorted (map stage (volumeFilters asset fps))"
    by (rule sorted_map_const[where c = 5]) (simp add: volumeFilters_stage)
  show ?thesis
    using t v by (auto simp: audioFilters_shape sorted_append volumeFilters_stage)
qed

lemma prepareAudio_resolved:
  assumes "prepareAudio env outputDir tempDir asset startFrame endFrame fps w = Resolved (p, w')"
  shows "\<exists>sr tempo bytes.
           getSampleRate env (resolvePath env outputDir (src asset)) = Inr sr
           \<and> calculateAtempoFilters (playbackRate asset) = Some tempo
           \<and> ffmpeg env (files w)
                (Synthesize (resolvePath env outputDir (src asset))
                   (audioFilters asset startFrame endFrame fps sr tempo)
                   (outputPath tempDir (key asset))) = End bytes
           \<and> p = outputPath tempDir (key asset)
           \<and> runs w' = runs w @ [Synthesize (resolvePath env outputDir (src asset))
                   (audioFilters asset startFrame endFrame fps sr tempo) p]
           \<and> files w' = (files w)(p \<mapsto> bytes)
           \<and> dirs w' = dirs w"
  using assms
  by (auto simp: prepareAudio_def runFfmpeg_def Let_def
      split: sum.splits option.splits ff_result.splits prod.splits)

section \<open>The loop of \<open>generateAudio\<close> and the cleanup\<close>

lemma synthesizeOne_names:
  assumes "synthesizeOne env outputDir fullTempDir startFrame endFrame fps asset (names, w)
             = Resolved (names', w')"
  shows "(names' = names \<and> w' = w) \<or> (\<exists>filename. names' = names @ [filename])"
  using assms
  by (auto simp: synthesizeOne_def split: sum.splits if_splits promise.splits)

lemma synthesizeAll_names:
  "synthesizeAll env outputDir fullTempDir startFrame endFrame fps spans (names, w)
     = Resolved (names', w')
   \<Longrightarrow> length names \<le> length names' \<and> (length names' = length names \<longrightarrow> w' = w)"
proof (induction spans arbitrary: names w)
  case Nil
  then show ?case by simp
next
  case (Cons asset rest)
  from Cons.prems obtain names1 w1 where
    one: "synthesizeOne env outputDir fullTempDir startFrame endFrame fps asset (names, w)
            = Resolved (names1, w1)"
    and rest: "synthesizeAll env outputDir fullTempDir startFrame endFrame fps rest (names1, w1)
            = Resolved (names', w')"
    by (auto split: promise.splits)
  from Cons.IH[OF rest] have ih: "length names1 \<le> length names'"
    "length names' = length names1 \<longrightarrow> w' = w1" by simp_all
  from synthesizeOne_names[OF one] show ?case
  proof
    assume "names1 = names \<and> w1 = w"
    then show ?thesis using ih by simp
  next
    assume "\<exists>filename. names1 = names @ [filename]"
    then have "length names1 = length names + 1" by auto
    then show ?thesis using ih by simp
  qed
qed

lemma generateAudio_no_segments:
  assumes "generateAudio env outputDir tempDir frames startFrame endFrame fps w
             = Resolved ([], w')"
  shows "w' = makeSureFolderExists (path_join (tmpdir env) tempDir)
                (makeSureFolderExists outputDir w)"
proof -
  let ?w2 = "makeSureFolderExists (path_join (tmpdir env) tempDir) (makeSureFolderExists outputDir w)"
  from assms obtain spans where
    "synthesizeAll env outputDir (path_join (tmpdir env) tempDir) startFrame endFrame fps spans
       ([], ?w2) = Resolved ([], w')"
    by (auto simp: generateAudio_def Let_def split: sum.splits promise.splits prod.splits if_splits)
  from synthesizeAll_names[OF this] show ?thesis by simp
qed

lemma cleanup_resolves:
  "\<exists>w''. cleanup env dir w = Resolved w'' \<and> runs w'' = runs w
     \<and> (\<forall>p. \<not> insideDir dir p \<longrightarrow> files w'' p = files w p)"
  by (simp add: cleanup_def catchIgnore_def rm_def)

lemma riser_placement: "getAssetPlacement riserFrames = Inr [riserSpan]"
  by (simp add: getAssetPlacement_def riserFrames_def riserSample_def riserSpan_def
        emptyPlacement_def recordSample_def orFalse_def attachVolumeChanges_def
        computeDuration_def js_eq_def Let_def)

section \<open>The end-to-end scenario\<close>

text \<open>
  The fade start is read from the second breakpoint. With exactly two breakpoints the second
  is also the last, the fade duration is 0 (or \<open>NaN\<close> at 0 fps), and the guard
  \<open>fadeDuration > 0\<close> of both fade branches fails: only the initial volume is applied.
\<close>

lemma two_breakpoints_no_fade:
  assumes "volumeChanges a = Some [b0, b1]"
  shows "volumeFilters a fps = [Volume (snd b0)]"
  using assms by (simp add: volumeFilters_def Let_def js_gt_def inf_of_sign_def)

lemma scenario_placement: "getAssetPlacement scenarioFrames = Inr [scenarioSpan]"
  by (simp add: getAssetPlacement_def scenarioFrames_def scenarioSample_def scenarioSpan_def
        emptyPlacement_def recordSample_def orFalse_def attachVolumeChanges_def
        computeDuration_def js_eq_def Let_def)

text \<open>
  With a third breakpoint in between, the same drop from 1 to 0 does get its fade-out: the
  fade then starts at the second breakpoint and lasts until the last.
\<close>

lemma gradual_placement: "getAssetPlacement gradualFrames = Inr [gradualSpan]"
  by (simp add: getAssetPlacement_def gradualFrames_def scenarioSample_def gradualSpan_def
        scenarioSpan_def emptyPlacement_def recordSample_def orFalse_def attachVolumeChanges_def
        computeDuration_def js_eq_def Let_def)

lemma three_breakpoints_fade_out:
  "volumeFilters gradualSpan 30 = [Volume 1, AfadeOut (Num (1 / 30)) (Num (1 / 30))]"
  by (simp add: volumeFilters_def gradualSpan_def scenarioSpan_def Let_def js_gt_def padStart_def)

text \<open>
  At 30 fps on the shard of frames 0 to 3, the command \<open>prepareAudio\<close> runs for the
  scenario's span has no \<open>afade\<close> filter in its chain.
\<close>

lemma scenario_chain_without_fade:
  "getAssetPlacement scenarioFrames = Inr [scenarioSpan]
   \<and> map_option (\<lambda>r. runs (snd r))
        (resolved (prepareAudio demoEnv ''out'' ''/tmp/t'' scenarioSpan 0 3 30 emptyWorld))
     = Some [Synthesize ''out/A.mp3''
               [Atrim (Num 0) (Num (149 / 1500)), Apad (Num 1600), Adelay (Num 0), Volume 1]
               ''/tmp/t/A.wav'']"
  by (simp add: scenario_placement prepareAudio_def demoEnv_def calculateAtempoFilters_one
      scenarioSpan_def runFfmpeg_def emptyWorld_def Let_def audioFilters_def needsLooping_def
      trimLeft_def trimRight_def padEnd_def padStart_def volumeFilters_def
      requiredDurationInSeconds_def js_min_def js_max_def js_sub_def js_gt_def js_eq_def
      outputPath_def path_join_def sanitizedKey_def)

text \<open>
  Claim C1. For the end-to-end scenario \<open>getAssetPlacement\<close> is to return one span with
  \<open>duration = 3\<close> and the envelope \<open>[(0, 1), (2, 0)]\<close>, and \<open>prepareAudio\<close> is to
  treat the envelope as a fade-out. The code does the first two and misses the third: at
  every frame rate the volume part of its chain for this span is the single constant filter
  \<open>volume=1\<close>, neither a fade-out nor a linear ramp, so the asset silenced at frame 2
  plays on at full volume. The source describes an envelope whose final volume is below
  the initial one as a fade-out applied with \<open>afade\<close>; it fails to do so here.
\<close>

theorem scenario_no_fade:
  "getAssetPlacement scenarioFrames = Inr [scenarioSpan] \<and> duration scenarioSpan = 3
     \<and> volumeChanges scenarioSpan = Some [(0, 1), (2, 0)]
     \<and> volumeFilters scenarioSpan fps = [Volume 1]"
proof -
  have vc: "volumeChanges scenarioSpan = Some [(0, 1), (2, 0)]" by (simp add: scenarioSpan_def)
  from two_breakpoints_no_fade[OF vc, of fps]
  have "volumeFilters scenarioSpan fps = [Volume 1]" by simp
  then show ?thesis using scenario_placement vc by (simp add: scenarioSpan_def)
qed

theorem scenario_no_fade_witness:
  "getAssetPlacement scenarioFrames = Inr [scenarioSpan] \<and> duration scenarioSpan = 3
     \<and> volumeChanges scenarioSpan = Some [(0, 1), (2, 0)]
     \<and> volumeFilters scenarioSpan 30 = [Volume 1]"
  using scenario_no_fade[of 30] by simp

section \<open>The tempo chain reconstructs the rate\<close>

text \<open>
  Claim C2. For every playback rate \<open>r > 0\<close>, \<open>calculateAtempoFilters\<close> returns, the
  stage factors it emits multiply to \<open>r\<close>, every factor lies between 0.5 and 100
  inclusive, and for \<open>r = 1\<close> the list is empty. (Over the reals the product is exact.)
\<close>

theorem calculateAtempoFilters_product:
  assumes "0 < r"
  shows "\<exists>fs. calculateAtempoFilters r = Some fs \<and> prod_list fs = r
           \<and> (\<forall>f \<in> set fs. 1/2 \<le> f \<and> f \<le> 100) \<and> (r = 1 \<longrightarrow> fs = [])"
proof (cases "1 < r")
  case True
  obtain rate1 fs1 where s: "speedUpLoop r [] = (rate1, fs1)" by (cases "speedUpLoop r []")
  have rng: "1 < rate1" "rate1 \<le> 100" using speedUpLoop_range[OF True, of "[]"] s by simp_all
  have prod: "prod_list fs1 * rate1 = r" using speedUpLoop_prod[of r "[]"] s by simp
  have st: "set fs1 \<subseteq> {100}" using speedUpLoop_set[of r "[]"] s by simp
  have "slowDownLoop r (fs1 @ [rate1]) = Some (r, fs1 @ [rate1])"
    using True by (simp add: slowDownLoop_done)
  then have "calculateAtempoFilters r = Some (fs1 @ [rate1])"
    using s rng True by (simp add: calculateAtempoFilters_def)
  moreover have "prod_list (fs1 @ [rate1]) = r" using prod by simp
  moreover have "\<forall>f \<in> set (fs1 @ [rate1]). 1/2 \<le> f \<and> f \<le> 100"
    using st rng by auto
  ultimately show ?thesis using True by auto
next
  case False
  then have s: "speedUpLoop r [] = (r, [])" by simp
  from slowDownLoop_returns[OF assms, of "[]"] obtain m where
    m: "slowDownLoop r [] = Some (r * 2 ^ m, replicate m (1/2))"
       "1/2 \<le> r * 2 ^ m" "0 < m \<longrightarrow> r * 2 ^ m < 1"
    by auto
  show ?thesis
  proof (cases "r = 1")
    case True
    then have "slowDownLoop r [] = Some (1, [])" by (simp add: slowDownLoop_done)
    then have "calculateAtempoFilters r = Some []"
      using True by (simp add: calculateAtempoFilters_def)
    then show ?thesis using True by simp
  next
    case r1: False
    then have rlt: "r < 1" using False by simp
    have lt: "r * 2 ^ m < 1" using m(3) rlt by (cases m) auto
    have c: "calculateAtempoFilters r = Some (replicate m (1/2) @ [r * 2 ^ m])"
      using s m(1) lt False by (simp add: calculateAtempoFilters_def)
    have "prod_list (replicate m (1/2) @ [r * 2 ^ m]) = r"
      by (simp add: power_divide)
    moreover have "\<forall>f \<in> set (replicate m (1/2) @ [r * 2 ^ m]). 1/2 \<le> f \<and> f \<le> 100"
      using m(2) lt by auto
    ultimately show ?thesis using c r1 by auto
  qed
qed

text \<open>At a rate of 250: one stage at 100 and the residual 2.5.\<close>

theorem calculateAtempoFilters_product_witness:
  "(0::real) < 250 \<and> calculateAtempoFilters 250 = Some [100, 5/2]
     \<and> prod_list [100, 5/2] = (250::real)
     \<and> (\<exists>fs. calculateAtempoFilters 250 = Some fs \<and> prod_list fs = 250
           \<and> (\<forall>f \<in> set fs. 1/2 \<le> f \<and> f \<le> 100) \<and> ((250::real) = 1 \<longrightarrow> fs = []))"
proof -
  have pos: "(0::real) < 250" by simp
  have run: "calculateAtempoFilters 250 = Some [100, 5/2]"
    by (simp add: calculateAtempoFilters_def slowDownLoop.simps)
  show ?thesis using pos run calculateAtempoFilters_product[OF pos] by simp
qed

section \<open>Order of the filter chain\<close>

text \<open>
  Claim C3, as amended. Whenever \<open>prepareAudio\<close> resolves it has run the engine once, on a
  chain made of, in this order: the looping filter (only if the span loops and is
  unbounded), the tempo stages, the trim, the end pad \<open>apad\<close>, the start pad \<open>adelay\<close>,
  and the volume shaping. The end pad comes before the start pad.
\<close>

theorem prepareAudio_chain_order:
  assumes "prepareAudio env outputDir tempDir asset startFrame endFrame fps w = Resolved (p, w')"
  shows "\<exists>input sr tempo chain.
           calculateAtempoFilters (playbackRate asset) = Some tempo
           \<and> runs w' = runs w @ [Synthesize input chain p]
           \<and> chain =
               (if needsLooping asset then [Aloop (loopCount asset startFrame endFrame fps)] else [])
               @ map Atempo tempo
               @ [Atrim (trimLeft asset) (trimRight asset startFrame endFrame fps),
                  Apad (padEnd asset startFrame endFrame fps sr),
                  Adelay (padStart asset fps)]
               @ volumeFilters asset fps
           \<and> sorted (map stage chain)
           \<and> (\<forall>f \<in> set (volumeFilters asset fps). stage f = 5)"
proof -
  from prepareAudio_resolved[OF assms] obtain sr tempo where
    h: "calculateAtempoFilters (playbackRate asset) = Some tempo"
       "runs w' = runs w @ [Synthesize (resolvePath env outputDir (src asset))
                   (audioFilters asset startFrame endFrame fps sr tempo) p]"
    by blast
  let ?chain = "audioFilters asset startFrame endFrame fps sr tempo"
  have "sorted (map stage ?chain)" by (rule audioFilters_sorted)
  moreover have "\<forall>f \<in> set (volumeFilters asset fps). stage f = 5"
    by (simp add: volumeFilters_stage)
  ultimately show ?thesis using h audioFilters_shape[of asset startFrame endFrame fps sr tempo]
    by metis
qed

lemma calculateAtempoFilters_250: "calculateAtempoFilters 250 = Some [100, 5/2]"
  by (simp add: calculateAtempoFilters_def slowDownLoop.simps)

lemma fastLoopSpan_resolves: "\<exists>w'. prepareAudio demoEnv ''out'' ''/tmp/t'' fastLoopSpan 0 30 30 emptyWorld = Resolved (''/tmp/t/music.wav'', w')"
  by (simp add: prepareAudio_def demoEnv_def calculateAtempoFilters_250
      fastLoopSpan_def loopSpan_def runFfmpeg_def Let_def 
      outputPath_def path_join_def sanitizedKey_def)

theorem prepareAudio_chain_order_witness:
  "\<exists>w'. prepareAudio demoEnv ''out'' ''/tmp/t'' fastLoopSpan 0 30 30 emptyWorld
          = Resolved (''/tmp/t/music.wav'', w')
      \<and> (\<exists>input sr tempo chain.
            calculateAtempoFilters (playbackRate fastLoopSpan) = Some tempo
            \<and> runs w' = runs emptyWorld @ [Synthesize input chain ''/tmp/t/music.wav'']
            \<and> chain =
               (if needsLooping fastLoopSpan then [Aloop (loopCount fastLoopSpan 0 30 30)] else [])
               @ map Atempo tempo
               @ [Atrim (trimLeft fastLoopSpan) (trimRight fastLoopSpan 0 30 30),
                  Apad (padEnd fastLoopSpan 0 30 30 sr),
                  Adelay (padStart fastLoopSpan 30)]
               @ volumeFilters fastLoopSpan 30
            \<and> sorted (map stage chain)
            \<and> (\<forall>f \<in> set (volumeFilters fastLoopSpan 30). stage f = 5))"
proof -
  from fastLoopSpan_resolves obtain w' where
    run: "prepareAudio demoEnv ''out'' ''/tmp/t'' fastLoopSpan 0 30 30 emptyWorld
            = Resolved (''/tmp/t/music.wav'', w')" by blast
  from prepareAudio_chain_order[OF run] run show ?thesis by blast
qed

text \<open>
  Claim C3 as stated fails: in the command run for the fast looping track the end pad
  \<open>Apad\<close> stands before the start pad \<open>Adelay\<close>.
\<close>

theorem pad_order_counterexample:
  "map_option (\<lambda>r. runs (snd r))
        (resolved (prepareAudio demoEnv ''out'' ''/tmp/t'' fastLoopSpan 0 30 30 emptyWorld))
     = Some [Synthesize ''out/music.mp3''
               [Aloop (Num 3), Atempo 100, Atempo (5 / 2),
                Atrim (Num (69 / 1250)) (Num (2041 / 1875)), Apad (Num 41600),
                Adelay (Num 100), Volume (4 / 5)]
               ''/tmp/t/music.wav'']"
  by (simp add: prepareAudio_def demoEnv_def calculateAtempoFilters_250
      fastLoopSpan_def loopSpan_def runFfmpeg_def emptyWorld_def Let_def audioFilters_def needsLooping_def
      trimLeft_def trimRight_def padEnd_def padStart_def volumeFilters_def loopCount_def
      requiredDurationInSeconds_def js_min_def js_max_def js_sub_def js_gt_def js_eq_def
      outputPath_def path_join_def sanitizedKey_def)

section \<open>The extraction window\<close>

text \<open>
  Claim C4, as amended. For a positive frame rate, a shard with \<open>startFrame \<le> endFrame\<close>,
  a nonzero playback rate and a span whose \<open>durationInSeconds\<close> is \<open>Infinity\<close> or a
  number that is not negative, \<open>trimRight \<ge> trimLeft\<close>.
\<close>

theorem trim_window_nonnegative:
  assumes "0 < fps" and "startFrame \<le> endFrame" and "playbackRate asset \<noteq> 0"
    and "js_ge (durationInSeconds asset) (Num 0)"
  shows "js_ge (trimRight asset startFrame endFrame fps) (trimLeft asset)"
proof -
  define tl where "tl = trimLeftInSeconds asset / playbackRate asset"
  define req where "req = real_of_int (endFrame - startFrame) / fps"
  define oneFrame where "oneFrame = 1 / fps"
  have tl: "trimLeft asset = Num tl" using assms(3) by (simp add: trimLeft_def tl_def)
  have req: "requiredDurationInSeconds startFrame endFrame fps = Num req"
    using assms(1) by (simp add: requiredDurationInSeconds_def req_def)
  have req0: "0 \<le> req" using assms(1,2) by (simp add: req_def)
  have one: "js_div (Num 1) (Num fps) = Num oneFrame" using assms(1) by (simp add: oneFrame_def)
  have pos: "0 < oneFrame" using assms(1) by (simp add: oneFrame_def)
  have right: "trimRight asset startFrame endFrame fps =
      js_add (Num oneFrame) (js_min (js_add (Num tl) (durationInSeconds asset)) (Num (tl + req)))"
    unfolding trimRight_def tl req one by simp
  show ?thesis
  proof (cases "durationInSeconds asset")
    case (Num d)
    then have d0: "0 \<le> d" using assms(4) by (auto simp: js_ge_def js_gt_def js_eq_def)
    have "trimRight asset startFrame endFrame fps =
        Num (oneFrame + (if req < d then tl + req else tl + d))"
      unfolding right Num by (simp add: js_min_def)
    then show ?thesis using pos req0 d0 by (simp add: tl js_ge_def js_gt_def js_eq_def)
  next
    case PInf
    then have "trimRight asset startFrame endFrame fps = Num (oneFrame + (tl + req))"
      unfolding right by (simp add: js_min_def)
    then show ?thesis using pos req0 by (simp add: tl js_ge_def js_gt_def js_eq_def)
  next
    case NInf
    then show ?thesis using assms(4) by (simp add: js_ge_def js_gt_def js_eq_def)
  next
    case NaN
    then show ?thesis using assms(4) by (simp add: js_ge_def js_gt_def js_eq_def)
  qed
qed

theorem trim_window_nonnegative_witness:
  "(0::real) < 30 \<and> (0::int) \<le> 3 \<and> playbackRate scenarioSpan \<noteq> 0
   \<and> js_ge (durationInSeconds scenarioSpan) (Num 0)
   \<and> trimLeft scenarioSpan = Num 0
   \<and> trimRight scenarioSpan 0 3 30 = Num (149 / 1500)
   \<and> js_ge (trimRight scenarioSpan 0 3 30) (trimLeft scenarioSpan)"
proof -
  have fps: "(0::real) < 30" and shard: "(0::int) \<le> 3" by simp_all
  have rate: "playbackRate scenarioSpan \<noteq> 0" by (simp add: scenarioSpan_def)
  have dur: "js_ge (durationInSeconds scenarioSpan) (Num 0)"
    by (simp add: scenarioSpan_def js_ge_def js_gt_def)
  have vals: "trimLeft scenarioSpan = Num 0" "trimRight scenarioSpan 0 3 30 = Num (149 / 1500)"
    by (simp_all add: scenarioSpan_def trimLeft_def trimRight_def requiredDurationInSeconds_def
        js_min_def)
  from trim_window_nonnegative[OF fps shard rate dur] fps shard rate dur vals
  show ?thesis by simp
qed

text \<open>
  Claim C4 as stated fails: \<open>getAssetPlacement\<close> itself returns a span with a negative
  duration when the current time of a clip that does not loop goes back, and then the
  window ends before it starts.
\<close>

theorem trim_window_counterexample:
  "getAssetPlacement rewindFrames = Inr [rewindSpan]
   \<and> trimLeft rewindSpan = Num 5
   \<and> trimRight rewindSpan 0 2 30 = Num (1 / 30)
   \<and> \<not> js_ge (trimRight rewindSpan 0 2 30) (trimLeft rewindSpan)"
  by (simp add: getAssetPlacement_def rewindFrames_def rewindSample_def rewindSpan_def
        emptyPlacement_def recordSample_def orFalse_def attachVolumeChanges_def
        computeDuration_def js_eq_def Let_def trimLeft_def trimRight_def
        requiredDurationInSeconds_def js_min_def js_ge_def js_gt_def)

section \<open>Looping spans carry the unbounded duration\<close>

text \<open>
  Claim C5. For every list of frames, every span returned by \<open>getAssetPlacement\<close> whose
  loop flag is true has \<open>Infinity\<close> as its \<open>durationInSeconds\<close>; the flag is the one of
  the first sample seen with the span's key.
\<close>

theorem looping_span_unbounded:
  assumes "getAssetPlacement frames = Inr spans" and "a \<in> set spans"
    and "loop a = Some True"
  shows "durationInSeconds a = PInf
         \<and> (\<exists>s. find (\<lambda>s. ai_key s = key a) (concat frames) = Some s \<and> ai_loop s = Some True)"
proof -
  from getAssetPlacement_span[OF assms(1,2)] obtain st a0 where
    h: "placementInv (concat frames) st" "a0 \<in> set (assets st)"
       "a = computeDuration st (attachVolumeChanges st a0)" by blast
  let ?a1 = "attachVolumeChanges st a0"
  have l0: "loop a0 = Some True"
    using assms(3) h(3) by (simp add: computeDuration_fields attachVolumeChanges_fields)
  from h(1,2) obtain timeInfo where "assetTimeMap st (key a0) = Some timeInfo"
    and "assetLoopMap st (key a0) = Some (orFalse (loop a0))"
    unfolding placementInv_def by blast
  then have "assetTimeMap st (key ?a1) = Some timeInfo" "assetLoopMap st (key ?a1) = Some True"
    using l0 by (simp_all add: attachVolumeChanges_fields orFalse_def)
  then have "durationInSeconds a = PInf"
    unfolding h(3) by (rule computeDuration_looping)
  moreover from getAssetPlacement_first_sample[OF assms(1,2)] assms(3)
  have "\<exists>s. find (\<lambda>s. ai_key s = key a) (concat frames) = Some s \<and> ai_loop s = Some True"
    by auto
  ultimately show ?thesis by blast
qed

text \<open>The looping track across its wrap-around: 0.1 - 13.8 is not used.\<close>

theorem looping_span_unbounded_witness:
  "getAssetPlacement loopFrames = Inr [loopSpan] \<and> loopSpan \<in> set [loopSpan]
     \<and> loop loopSpan = Some True \<and> durationInSeconds loopSpan = PInf"
proof -
  have run: "getAssetPlacement loopFrames = Inr [loopSpan]"
    by (simp add: getAssetPlacement_def loopFrames_def loopSample_def loopSpan_def
        emptyPlacement_def recordSample_def orFalse_def attachVolumeChanges_def
        computeDuration_def js_eq_def Let_def)
  have mem: "loopSpan \<in> set [loopSpan]" by simp
  have flag: "loop loopSpan = Some True" by (simp add: loopSpan_def)
  from looping_span_unbounded[OF run mem flag] run mem flag show ?thesis by simp
qed

section \<open>Success of the engine is all that is checked\<close>

text \<open>
  Claim C6, as amended. \<open>prepareAudio\<close> and \<open>mergeAudioTracks\<close> settle on the engine's
  event alone. When the engine reports \<open>end\<close> they resolve, whatever the size of the file
  it wrote, zero bytes included; they reject only on the engine's \<open>error\<close> event, or, for
  \<open>prepareAudio\<close>, when the sample-rate probe rejects.
\<close>

theorem engine_success_resolves:
  "(getSampleRate env (resolvePath env outputDir (src asset)) = Inr sr
      \<and> calculateAtempoFilters (playbackRate asset) = Some tempo
      \<and> ffmpeg env (files w)
           (Synthesize (resolvePath env outputDir (src asset))
              (audioFilters asset startFrame endFrame fps sr tempo)
              (outputPath tempDir (key asset))) = End bytes
    \<longrightarrow> (\<exists>w'. prepareAudio env outputDir tempDir asset startFrame endFrame fps w
                 = Resolved (outputPath tempDir (key asset), w')
              \<and> files w' (outputPath tempDir (key asset)) = Some bytes))
   \<and> (ffmpeg env (files w) (Mix names (path_join tempDir ''audio.wav'')) = End bytes
    \<longrightarrow> (\<exists>w'. mergeAudioTracks env tempDir names w = Resolved w'
              \<and> files w' (path_join tempDir ''audio.wav'') = Some bytes))
   \<and> (prepareAudio env outputDir tempDir asset startFrame endFrame fps w = Rejected e
    \<longrightarrow> getSampleRate env (resolvePath env outputDir (src asset)) = Inl e
        \<or> (\<exists>sr tempo msg written.
              ffmpeg env (files w)
                (Synthesize (resolvePath env outputDir (src asset))
                   (audioFilters asset startFrame endFrame fps sr tempo)
                   (outputPath tempDir (key asset))) = Error msg written
              \<and> e = EngineError msg))
   \<and> (mergeAudioTracks env tempDir names w = Rejected e
    \<longrightarrow> (\<exists>msg written. ffmpeg env (files w) (Mix names (path_join tempDir ''audio.wav''))
                           = Error msg written
                         \<and> e = EngineError msg))"
proof (intro conjI impI)
  assume "getSampleRate env (resolvePath env outputDir (src asset)) = Inr sr
      \<and> calculateAtempoFilters (playbackRate asset) = Some tempo
      \<and> ffmpeg env (files w)
           (Synthesize (resolvePath env outputDir (src asset))
              (audioFilters asset startFrame endFrame fps sr tempo)
              (outputPath tempDir (key asset))) = End bytes"
  then show "\<exists>w'. prepareAudio env outputDir tempDir asset startFrame endFrame fps w
                 = Resolved (outputPath tempDir (key asset), w')
              \<and> files w' (outputPath tempDir (key asset)) = Some bytes"
    by (simp add: prepareAudio_def runFfmpeg_def Let_def)
next
  assume "ffmpeg env (files w) (Mix names (path_join tempDir ''audio.wav'')) = End bytes"
  then show "\<exists>w'. mergeAudioTracks env tempDir names w = Resolved w'
              \<and> files w' (path_join tempDir ''audio.wav'') = Some bytes"
    by (simp add: mergeAudioTracks_def runFfmpeg_def Let_def)
next
  assume "prepareAudio env outputDir tempDir asset startFrame endFrame fps w = Rejected e"
  then show "getSampleRate env (resolvePath env outputDir (src asset)) = Inl e
        \<or> (\<exists>sr tempo msg written.
              ffmpeg env (files w)
                (Synthesize (resolvePath env outputDir (src asset))
                   (audioFilters asset startFrame endFrame fps sr tempo)
                   (outputPath tempDir (key asset))) = Error msg written
              \<and> e = EngineError msg)"
    by (auto simp: prepareAudio_def runFfmpeg_def Let_def
        split: sum.splits option.splits ff_result.splits)
next
  assume "mergeAudioTracks env tempDir names w = Rejected e"
  then show "\<exists>msg written. ffmpeg env (files w) (Mix names (path_join tempDir ''audio.wav''))
                           = Error msg written \<and> e = EngineError msg"
    by (auto simp: mergeAudioTracks_def runFfmpeg_def Let_def
        split: option.splits ff_result.splits)
qed

theorem engine_success_resolves_witness:
  "ffmpeg silentEnv (files emptyWorld) (Mix [''/tmp/t/A.wav''] (path_join ''/tmp/t'' ''audio.wav'')) = End []
   \<and> (\<exists>w'. mergeAudioTracks silentEnv ''/tmp/t'' [''/tmp/t/A.wav''] emptyWorld = Resolved w'
              \<and> files w' (path_join ''/tmp/t'' ''audio.wav'') = Some [])
   \<and> getSampleRate silentEnv (resolvePath silentEnv ''out'' (src scenarioSpan)) = Inr 48000
   \<and> calculateAtempoFilters (playbackRate scenarioSpan) = Some []
   \<and> (\<exists>w'. prepareAudio silentEnv ''out'' ''/tmp/t'' scenarioSpan 0 3 30 emptyWorld
                 = Resolved (outputPath ''/tmp/t'' (key scenarioSpan), w')
              \<and> files w' (outputPath ''/tmp/t'' (key scenarioSpan)) = Some [])"
proof -
  have mix: "ffmpeg silentEnv (files emptyWorld)
       (Mix [''/tmp/t/A.wav''] (path_join ''/tmp/t'' ''audio.wav'')) = End []"
    by (simp add: silentEnv_def)
  have probe: "getSampleRate silentEnv (resolvePath silentEnv ''out'' (src scenarioSpan)) = Inr 48000"
    by (simp add: silentEnv_def demoEnv_def)
  have tempo: "calculateAtempoFilters (playbackRate scenarioSpan) = Some []"
    by (simp add: scenarioSpan_def calculateAtempoFilters_one)
  have synth: "ffmpeg silentEnv (files emptyWorld)
           (Synthesize (resolvePath silentEnv ''out'' (src scenarioSpan))
              (audioFilters scenarioSpan 0 3 30 48000 [])
              (outputPath ''/tmp/t'' (key scenarioSpan))) = End []"
    by (simp add: silentEnv_def)
  from engine_success_resolves[of silentEnv "''out''" scenarioSpan 48000 "[]" emptyWorld 0 3 30
      "''/tmp/t''" "[]" "[''/tmp/t/A.wav'']" TypeError]
    mix probe tempo synth
  show ?thesis by simp
qed

text \<open>
  Claim C6 as stated fails: with an engine that reports success and writes an empty file,
  both functions resolve and the empty file stays where it was written.
\<close>

theorem zero_byte_counterexample:
  "map_option fst
      (resolved (prepareAudio silentEnv ''out'' ''/tmp/t'' scenarioSpan 0 3 30 emptyWorld))
     = Some ''/tmp/t/A.wav''
   \<and> map_option (\<lambda>r. files (snd r) ''/tmp/t/A.wav'')
      (resolved (prepareAudio silentEnv ''out'' ''/tmp/t'' scenarioSpan 0 3 30 emptyWorld))
     = Some (Some [])
   \<and> map_option (\<lambda>w. files w ''/tmp/t/audio.wav'')
      (resolved (mergeAudioTracks silentEnv ''/tmp/t'' [''/tmp/t/A.wav''] emptyWorld))
     = Some (Some [])"
  by (simp add: prepareAudio_def mergeAudioTracks_def silentEnv_def demoEnv_def
      calculateAtempoFilters_one scenarioSpan_def runFfmpeg_def Let_def
      outputPath_def path_join_def sanitizedKey_def)

section \<open>No segments: the visuals are copied\<close>

text \<open>
  Claim C7, as amended. When \<open>generateAudio\<close> returns the empty list, it has run no
  engine and written no file: the mixer was skipped. \<open>mergeMedia\<close> decides by whether
  \<open>audio.wav\<close> exists in the temp directory, not by what \<open>generateAudio\<close> returned. If
  no \<open>audio.wav\<close> is there and the rendered visuals are, it takes the copy branch: the
  visuals' content is written to the final path as it is, \<open>mergeAudioWithVideo\<close> is not
  called, no engine runs, and after the cleanup the final file (when it does not lie in the
  temp directory) has the content of the visuals.
\<close>

theorem no_segments_copies_visuals:
  assumes gen: "generateAudio env outputDir tempDir frames startFrame endFrame fps w
                  = Resolved ([], w')"
    and fresh: "\<not> pathExists w' (path_join (path_join (tmpdir env) tempDir) ''audio.wav'')"
    and vis: "files w' (path_join (path_join (tmpdir env) tempDir)
                          (''visuals.'' @ extensions env fmt)) = Some content"
  shows "runs w' = runs w \<and> files w' = files w
         \<and> mergeOrCopy env outputFilename outputDir tempDir fmt w'
             = Resolved (w'\<lparr>files := (files w')
                  (path_join outputDir (outputFilename @ ''.'' @ extensions env fmt) \<mapsto> content)\<rparr>)
         \<and> mergeMedia env outputFilename outputDir tempDir fmt w'
             = cleanup env (path_join (tmpdir env) tempDir)
                 (w'\<lparr>files := (files w')
                  (path_join outputDir (outputFilename @ ''.'' @ extensions env fmt) \<mapsto> content)\<rparr>)
         \<and> (\<exists>w''. mergeMedia env outputFilename outputDir tempDir fmt w' = Resolved w''
                \<and> runs w'' = runs w
                \<and> (\<not> insideDir (path_join (tmpdir env) tempDir)
                          (path_join outputDir (outputFilename @ ''.'' @ extensions env fmt))
                     \<longrightarrow> files w'' (path_join outputDir (outputFilename @ ''.'' @ extensions env fmt))
                           = Some content))"
proof -
  let ?full = "path_join (tmpdir env) tempDir"
  have w': "w' = makeSureFolderExists ?full (makeSureFolderExists outputDir w)"
    using gen by (rule generateAudio_no_segments)
  have same: "runs w' = runs w" "files w' = files w"
    by (simp_all add: w' makeSureFolderExists_def)
  have idem: "makeSureFolderExists ?full (makeSureFolderExists outputDir w') = w'"
    by (simp add: w' makeSureFolderExists_def insert_commute)
  have copy: "mergeOrCopy env outputFilename outputDir tempDir fmt w'
             = Resolved (w'\<lparr>files := (files w')
                  (path_join outputDir (outputFilename @ ''.'' @ extensions env fmt) \<mapsto> content)\<rparr>)"
    using fresh vis by (simp add: mergeOrCopy_def Let_def idem copyFile_def)
  let ?w3 = "w'\<lparr>files := (files w')
                  (path_join outputDir (outputFilename @ ''.'' @ extensions env fmt) \<mapsto> content)\<rparr>"
  have mm: "mergeMedia env outputFilename outputDir tempDir fmt w' = cleanup env ?full ?w3"
    using copy by (simp add: mergeMedia_def)
  from cleanup_resolves[of env ?full ?w3] obtain w'' where
    c: "cleanup env ?full ?w3 = Resolved w''" "runs w'' = runs ?w3"
       "\<forall>p. \<not> insideDir ?full p \<longrightarrow> files w'' p = files ?w3 p" by blast
  have "\<exists>w''. mergeMedia env outputFilename outputDir tempDir fmt w' = Resolved w''
                \<and> runs w'' = runs w
                \<and> (\<not> insideDir ?full (path_join outputDir (outputFilename @ ''.'' @ extensions env fmt))
                     \<longrightarrow> files w'' (path_join outputDir (outputFilename @ ''.'' @ extensions env fmt))
                           = Some content)"
    using c same(1) mm by (intro exI[of _ w'']) simp
  then show ?thesis using same copy mm by simp
qed

text \<open>The rising video alone: nothing is synthesized and \<open>visuals.mp4\<close> is copied.\<close>

theorem no_segments_copies_visuals_witness:
  "\<exists>w'. generateAudio demoEnv ''/out'' ''render-7'' riserFrames 0 2 30 renderWorld
           = Resolved ([], w')
     \<and> \<not> pathExists w' (path_join (path_join (tmpdir demoEnv) ''render-7'') ''audio.wav'')
     \<and> files w' (path_join (path_join (tmpdir demoEnv) ''render-7'')
                          (''visuals.'' @ extensions demoEnv mp4)) = Some [82, 73, 70]
     \<and> \<not> insideDir (path_join (tmpdir demoEnv) ''render-7'')
             (path_join ''/out'' (''final'' @ ''.'' @ extensions demoEnv mp4))
     \<and> runs w' = runs renderWorld \<and> files w' = files renderWorld
     \<and> (\<exists>w''. mergeMedia demoEnv ''final'' ''/out'' ''render-7'' mp4 w' = Resolved w''
            \<and> runs w'' = runs renderWorld
            \<and> files w'' (path_join ''/out'' (''final'' @ ''.'' @ extensions demoEnv mp4))
                  = Some [82, 73, 70])"
proof -
  define w' where "w' = makeSureFolderExists (path_join (tmpdir demoEnv) ''render-7'')
                (makeSureFolderExists ''/out'' renderWorld)"
  have gen: "generateAudio demoEnv ''/out'' ''render-7'' riserFrames 0 2 30 renderWorld
           = Resolved ([], w')"
    by (simp add: generateAudio_def riser_placement synthesizeOne_def riserSpan_def demoEnv_def
        w'_def Let_def)
  have fresh: "\<not> pathExists w' (path_join (path_join (tmpdir demoEnv) ''render-7'') ''audio.wav'')"
    by (simp add: w'_def pathExists_def makeSureFolderExists_def renderWorld_def demoEnv_def
        path_join_def)
  have vis: "files w' (path_join (path_join (tmpdir demoEnv) ''render-7'')
                          (''visuals.'' @ extensions demoEnv mp4)) = Some [82, 73, 70]"
    by (simp add: w'_def makeSureFolderExists_def renderWorld_def demoEnv_def path_join_def)
  have out: "\<not> insideDir (path_join (tmpdir demoEnv) ''render-7'')
                 (path_join ''/out'' (''final'' @ ''.'' @ extensions demoEnv mp4))"
    by (simp add: insideDir_def demoEnv_def path_join_def)
  from no_segments_copies_visuals[OF gen fresh vis, of "''final''"] out
  have "runs w' = runs renderWorld \<and> files w' = files renderWorld
     \<and> (\<exists>w''. mergeMedia demoEnv ''final'' ''/out'' ''render-7'' mp4 w' = Resolved w''
            \<and> runs w'' = runs renderWorld
            \<and> files w'' (path_join ''/out'' (''final'' @ ''.'' @ extensions demoEnv mp4))
                  = Some [82, 73, 70])"
    by blast
  with gen fresh vis out show ?thesis by blast
qed

text \<open>
  Claim C7 as stated fails: in a temp directory that already holds an \<open>audio.wav\<close>,
  \<open>generateAudio\<close> returns no segment and runs no engine, and \<open>mergeMedia\<close> still muxes:
  the final file is not the visuals' content.
\<close>

theorem stale_audio_counterexample:
  "map_option fst
      (resolved (generateAudio muxEnv ''/out'' ''render-7'' riserFrames 0 2 30 staleWorld))
     = Some []
   \<and> map_option (\<lambda>r. runs (snd r))
      (resolved (generateAudio muxEnv ''/out'' ''render-7'' riserFrames 0 2 30 staleWorld))
     = Some []
   \<and> files staleWorld ''/tmp/render-7/visuals.mp4'' = Some [82, 73, 70]
   \<and> Option.bind
        (resolved (generateAudio muxEnv ''/out'' ''render-7'' riserFrames 0 2 30 staleWorld))
        (\<lambda>r. map_option (\<lambda>w. files w ''/out/final.mp4'')
                (resolved (mergeMedia muxEnv ''final'' ''/out'' ''render-7'' mp4 (snd r))))
     = Some (Some [82, 73, 70, 65])"
proof -
  define w' where "w' = makeSureFolderExists (path_join (tmpdir muxEnv) ''render-7'')
                (makeSureFolderExists ''/out'' staleWorld)"
  have gen: "generateAudio muxEnv ''/out'' ''render-7'' riserFrames 0 2 30 staleWorld
           = Resolved ([], w')"
    by (simp add: generateAudio_def riser_placement synthesizeOne_def riserSpan_def muxEnv_def
        demoEnv_def w'_def Let_def)
  have r: "runs w' = []" by (simp add: w'_def makeSureFolderExists_def staleWorld_def)
  have v: "files staleWorld ''/tmp/render-7/visuals.mp4'' = Some [82, 73, 70]"
    by (simp add: staleWorld_def)
  have mm: "map_option (\<lambda>w. files w ''/out/final.mp4'')
                (resolved (mergeMedia muxEnv ''final'' ''/out'' ''render-7'' mp4 w'))
            = Some (Some [82, 73, 70, 65])"
    by (simp add: mergeMedia_def mergeOrCopy_def cleanup_def muxEnv_def demoEnv_def w'_def
        staleWorld_def makeSureFolderExists_def pathExists_def endsWith_def path_join_def Let_def)
  show ?thesis using gen r v mm by simp
qed

section \<open>Cleanup of the temp directory\<close>

text \<open>
  Claim C8, as amended. After the merge or copy of \<open>mergeMedia\<close> has resolved, the temp
  directory is removed only if its name ends with \<open>-undefined\<close>; that removal is best
  effort, a failure is swallowed and leaves the world as the merge left it. A directory
  without the marker is not touched: no removal is attempted. \<open>mergeMedia\<close> rejects only
  when the merge or copy rejects.
\<close>

theorem cleanup_only_with_marker:
  "(mergeMedia env outputFilename outputDir tempDir fmt w = Resolved w''
    \<longrightarrow> (\<exists>w3. mergeOrCopy env outputFilename outputDir tempDir fmt w = Resolved w3
           \<and> (if endsWith (path_join (tmpdir env) tempDir) ''-undefined''
               then (if rmFails env (path_join (tmpdir env) tempDir) then w'' = w3
                     else path_join (tmpdir env) tempDir \<notin> dirs w''
                          \<and> (\<forall>p. insideDir (path_join (tmpdir env) tempDir) p
                                 \<longrightarrow> files w'' p = None))
               else w'' = w3)))
   \<and> (mergeMedia env outputFilename outputDir tempDir fmt w = Rejected e
    \<longrightarrow> mergeOrCopy env outputFilename outputDir tempDir fmt w = Rejected e)"
  by (auto simp: mergeMedia_def cleanup_def catchIgnore_def rm_def insideDir_def
      split: promise.splits if_splits)

theorem cleanup_only_with_marker_witness:
  "endsWith (path_join (tmpdir demoEnv) ''render-undefined'') ''-undefined''
   \<and> \<not> rmFails demoEnv (path_join (tmpdir demoEnv) ''render-undefined'')
   \<and> (\<exists>w''. mergeMedia demoEnv ''final'' ''/out'' ''render-undefined'' mp4 disposableWorld
                = Resolved w''
          \<and> ''/tmp/render-undefined'' \<notin> dirs w''
          \<and> files w'' ''/tmp/render-undefined/visuals.mp4'' = None
          \<and> files w'' ''/out/final.mp4'' = Some [82, 73, 70])"
proof -
  have marker: "endsWith (path_join (tmpdir demoEnv) ''render-undefined'') ''-undefined''"
    by (simp add: endsWith_def demoEnv_def path_join_def)
  have ok: "\<not> rmFails demoEnv (path_join (tmpdir demoEnv) ''render-undefined'')"
    by (simp add: demoEnv_def)
  obtain w'' where run: "mergeMedia demoEnv ''final'' ''/out'' ''render-undefined'' mp4 disposableWorld
                = Resolved w''" and out: "files w'' ''/out/final.mp4'' = Some [82, 73, 70]"
    by (simp add: mergeMedia_def mergeOrCopy_def cleanup_def catchIgnore_def rm_def demoEnv_def
        disposableWorld_def makeSureFolderExists_def pathExists_def copyFile_def endsWith_def
        path_join_def insideDir_def Let_def)
  have full: "path_join (tmpdir demoEnv) ''render-undefined'' = ''/tmp/render-undefined''"
    by (simp add: demoEnv_def path_join_def)
  have u: "insideDir ''/tmp/render-undefined'' ''/tmp/render-undefined/visuals.mp4''"
    by (simp add: insideDir_def)
  from cleanup_only_with_marker[of demoEnv "''final''" "''/out''" "''render-undefined''" mp4
      disposableWorld w'' TypeError] run marker ok
  have "''/tmp/render-undefined'' \<notin> dirs w''
        \<and> files w'' ''/tmp/render-undefined/visuals.mp4'' = None"
    using u by (auto simp: full)
  with run out marker ok show ?thesis by blast
qed

text \<open>
  Claim C8 as stated fails: for the temp directory \<open>render-7\<close>, whose removal would not
  fail, \<open>mergeMedia\<close> resolves and the directory and the visuals in it are still there.
\<close>

theorem cleanup_counterexample:
  "\<not> rmFails demoEnv ''/tmp/render-7''
   \<and> map_option (\<lambda>w. (''/tmp/render-7'' \<in> dirs w, files w ''/tmp/render-7/visuals.mp4'',
                       files w ''/out/final.mp4''))
        (resolved (mergeMedia demoEnv ''final'' ''/out'' ''render-7'' mp4 renderWorld))
      = Some (True, Some [82, 73, 70], Some [82, 73, 70])"
  by (simp add: mergeMedia_def mergeOrCopy_def cleanup_def demoEnv_def renderWorld_def
      makeSureFolderExists_def pathExists_def copyFile_def endsWith_def path_join_def Let_def)

section \<open>An asset that starts silent is skipped\<close>

text \<open>
  Claim C9. The skip decision of \<open>generateAudio\<close> reads the base volume, which
  \<open>getAssetPlacement\<close> takes from the first sample of the asset. If that sample has volume 0,
  the span has volume 0 whatever the later samples say, and the loop body leaves the list of
  segment files and the world (the log of engine runs included) as they were: \<open>prepareAudio\<close>
  is not called. For a video the audio-stream probe runs before the decision; if the probe
  itself rejects, so does the loop body, again without an engine run.
\<close>

theorem silent_first_sample_skipped:
  assumes "getAssetPlacement frames = Inr spans" and "a \<in> set spans"
    and "find (\<lambda>s. ai_key s = key a) (concat frames) = Some s"
    and "ai_volume s = 0"
  shows "volume a = 0
         \<and> (synthesizeOne env outputDir fullTempDir startFrame endFrame fps a st = Resolved st
            \<or> (type a \<noteq> Audio
                \<and> (\<exists>e. checkForAudioStream env (resolvePath env outputDir (src a)) = Inl e
                      \<and> synthesizeOne env outputDir fullTempDir startFrame endFrame fps a st
                          = Rejected e)))"
proof -
  from getAssetPlacement_first_sample[OF assms(1,2)] assms(3,4)
  have v: "volume a = 0" by auto
  show ?thesis
  proof (cases "type a = Audio")
    case True
    then show ?thesis using v by (simp add: synthesizeOne_def)
  next
    case False
    then show ?thesis
      using v by (cases "checkForAudioStream env (resolvePath env outputDir (src a))")
        (simp_all add: synthesizeOne_def)
  qed
qed

text \<open>
  The rising video: its envelope climbs from 0 to 1, its base volume stays 0, the loop body
  changes nothing and \<open>generateAudio\<close> returns no segment and runs no engine.
\<close>

theorem silent_first_sample_skipped_witness:
  "getAssetPlacement riserFrames = Inr [riserSpan] \<and> riserSpan \<in> set [riserSpan]
     \<and> find (\<lambda>s. ai_key s = key riserSpan) (concat riserFrames) = Some (riserSample 0 0)
     \<and> ai_volume (riserSample 0 0) = 0
     \<and> volumeChanges riserSpan = Some [(0, 0), (1, 1)]
     \<and> volume riserSpan = 0
     \<and> synthesizeOne demoEnv ''out'' ''/tmp/t'' 0 2 30 riserSpan ([], emptyWorld)
         = Resolved ([], emptyWorld)"
proof -
  have run: "getAssetPlacement riserFrames = Inr [riserSpan]" by (rule riser_placement)
  have mem: "riserSpan \<in> set [riserSpan]" by simp
  have first: "find (\<lambda>s. ai_key s = key riserSpan) (concat riserFrames) = Some (riserSample 0 0)"
    by (simp add: riserFrames_def riserSample_def riserSpan_def)
  have silent: "ai_volume (riserSample 0 0) = 0" by (simp add: riserSample_def)
  have probe: "checkForAudioStream demoEnv (resolvePath demoEnv ''out'' (src riserSpan)) = Inr True"
    by (simp add: demoEnv_def)
  from silent_first_sample_skipped[OF run mem first silent,
      of demoEnv "''out''" "''/tmp/t''" 0 2 30 "([], emptyWorld)"] probe
  have "volume riserSpan = 0
        \<and> synthesizeOne demoEnv ''out'' ''/tmp/t'' 0 2 30 riserSpan ([], emptyWorld)
            = Resolved ([], emptyWorld)"
    by auto
  moreover have "volumeChanges riserSpan = Some [(0, 0), (1, 1)]" by (simp add: riserSpan_def)
  ultimately show ?thesis using run mem first silent by simp
qed

section \<open>Segment paths and colliding keys\<close>

lemma outputPath_eq_iff:
  "outputPath tempDir k1 = outputPath tempDir k2 \<longleftrightarrow> sanitizedKey k1 = sanitizedKey k2"
  by (simp add: outputPath_def path_join_def)

text \<open>
  Claim C10. The segment path is the temp directory joined with the sanitized key and
  \<open>.wav\<close>, so two keys get the same path exactly when their sanitized forms are equal.
  When \<open>prepareAudio\<close> resolves for two assets with equal sanitized keys, one after the
  other, both return the same path and the file there holds what the second run of the
  engine wrote.
\<close>

theorem sanitized_key_collision:
  "(outputPath tempDir k1 = outputPath tempDir k2 \<longleftrightarrow> sanitizedKey k1 = sanitizedKey k2)
   \<and> (prepareAudio env outputDir tempDir a1 startFrame endFrame fps w = Resolved (p1, w1)
        \<and> prepareAudio env outputDir tempDir a2 startFrame endFrame fps w1 = Resolved (p2, w2)
        \<and> sanitizedKey (key a1) = sanitizedKey (key a2)
      \<longrightarrow> p1 = p2
          \<and> (\<exists>job bytes. runs w2 = runs w1 @ [job] \<and> jobOutput job = p1
                \<and> ffmpeg env (files w1) job = End bytes
                \<and> files w2 p1 = Some bytes))"
proof (intro conjI impI)
  show "outputPath tempDir k1 = outputPath tempDir k2 \<longleftrightarrow> sanitizedKey k1 = sanitizedKey k2"
    by (rule outputPath_eq_iff)
next
  assume h: "prepareAudio env outputDir tempDir a1 startFrame endFrame fps w = Resolved (p1, w1)
        \<and> prepareAudio env outputDir tempDir a2 startFrame endFrame fps w1 = Resolved (p2, w2)
        \<and> sanitizedKey (key a1) = sanitizedKey (key a2)"
  from h prepareAudio_resolved[of env outputDir tempDir a1 startFrame endFrame fps w p1 w1]
  have p1: "p1 = outputPath tempDir (key a1)" by blast
  from h prepareAudio_resolved[of env outputDir tempDir a2 startFrame endFrame fps w1 p2 w2]
  obtain sr tempo bytes where
    second: "p2 = outputPath tempDir (key a2)"
      "ffmpeg env (files w1)
                (Synthesize (resolvePath env outputDir (src a2))
                   (audioFilters a2 startFrame endFrame fps sr tempo)
                   (outputPath tempDir (key a2))) = End bytes"
      "runs w2 = runs w1 @ [Synthesize (resolvePath env outputDir (src a2))
                   (audioFilters a2 startFrame endFrame fps sr tempo) p2]"
      "files w2 = (files w1)(p2 \<mapsto> bytes)"
    by blast
  have same: "p1 = p2" using p1 second(1) h by (simp add: outputPath_eq_iff)
  then show "p1 = p2" .
  let ?job = "Synthesize (resolvePath env outputDir (src a2))
                   (audioFilters a2 startFrame endFrame fps sr tempo) p2"
  have "runs w2 = runs w1 @ [?job] \<and> jobOutput ?job = p1
        \<and> ffmpeg env (files w1) ?job = End bytes \<and> files w2 p1 = Some bytes"
    using second same by simp
  then show "\<exists>job bytes. runs w2 = runs w1 @ [job] \<and> jobOutput job = p1
                \<and> ffmpeg env (files w1) job = End bytes
                \<and> files w2 p1 = Some bytes"
    by blast
qed

text \<open>The keys \<open>a/b\<close> and \<open>a-b\<close>: one path, and the second segment replaces the first.\<close>

theorem sanitized_key_collision_witness:
  "''a/b'' \<noteq> ''a-b'' \<and> sanitizedKey ''a/b'' = ''a-b'' \<and> sanitizedKey ''a-b'' = ''a-b''
   \<and> sanitizedKey ''clips[0]/x'' = ''clips-0--x''
   \<and> outputPath ''/tmp/t'' ''a/b'' = ''/tmp/t/a-b.wav''
   \<and> outputPath ''/tmp/t'' ''a-b'' = ''/tmp/t/a-b.wav''
   \<and> (\<exists>w1 w2. prepareAudio demoEnv ''out'' ''/tmp/t'' slashSpan 0 3 30 emptyWorld
                 = Resolved (''/tmp/t/a-b.wav'', w1)
         \<and> files w1 ''/tmp/t/a-b.wav'' = Some [11]
         \<and> prepareAudio demoEnv ''out'' ''/tmp/t'' dashSpan 0 3 30 w1
                 = Resolved (''/tmp/t/a-b.wav'', w2)
         \<and> sanitizedKey (key slashSpan) = sanitizedKey (key dashSpan)
         \<and> files w2 ''/tmp/t/a-b.wav'' = Some [14]
         \<and> (\<exists>job bytes. runs w2 = runs w1 @ [job] \<and> jobOutput job = ''/tmp/t/a-b.wav''
                \<and> ffmpeg demoEnv (files w1) job = End bytes
                \<and> files w2 ''/tmp/t/a-b.wav'' = Some bytes))"
proof -
  have keys: "''a/b'' \<noteq> ''a-b''" "sanitizedKey ''a/b'' = ''a-b''" "sanitizedKey ''a-b'' = ''a-b''"
    "sanitizedKey ''clips[0]/x'' = ''clips-0--x''"
    "outputPath ''/tmp/t'' ''a/b'' = ''/tmp/t/a-b.wav''"
    "outputPath ''/tmp/t'' ''a-b'' = ''/tmp/t/a-b.wav''"
    by (simp_all add: sanitizedKey_def outputPath_def path_join_def)
  obtain w1 where first: "prepareAudio demoEnv ''out'' ''/tmp/t'' slashSpan 0 3 30 emptyWorld
                 = Resolved (''/tmp/t/a-b.wav'', w1)" and f1: "files w1 ''/tmp/t/a-b.wav'' = Some [11]"
    by (simp add: prepareAudio_def demoEnv_def calculateAtempoFilters_one slashSpan_def
        scenarioSpan_def runFfmpeg_def Let_def outputPath_def path_join_def sanitizedKey_def)
  obtain w2 where second: "prepareAudio demoEnv ''out'' ''/tmp/t'' dashSpan 0 3 30 w1
                 = Resolved (''/tmp/t/a-b.wav'', w2)" and f2: "files w2 ''/tmp/t/a-b.wav'' = Some [14]"
    by (simp add: prepareAudio_def demoEnv_def calculateAtempoFilters_one dashSpan_def
        scenarioSpan_def runFfmpeg_def Let_def outputPath_def path_join_def sanitizedKey_def)
  have col: "sanitizedKey (key slashSpan) = sanitizedKey (key dashSpan)"
    by (simp add: slashSpan_def dashSpan_def sanitizedKey_def)
  from sanitized_key_collision[of "''/tmp/t''" "''a/b''" "''a-b''" demoEnv "''out''" slashSpan
      0 3 30 emptyWorld "''/tmp/t/a-b.wav''" w1 dashSpan "''/tmp/t/a-b.wav''" w2]
    first second col
  have "\<exists>job bytes. runs w2 = runs w1 @ [job] \<and> jobOutput job = ''/tmp/t/a-b.wav''
                \<and> ffmpeg demoEnv (files w1) job = End bytes
                \<and> files w2 ''/tmp/t/a-b.wav'' = Some bytes"
    by blast
  with keys first f1 second col f2 show ?thesis by blast
qed

end
